theory Spec2Isabelle
  imports Main
begin

section \<open>Python values and the provider\<close>

text \<open>
  The exceptions that the modelled part of
  \<^verbatim>\<open>cloudbridge/cloud/providers/aws/services.py\<close> raises, either with an explicit
  \<^verbatim>\<open>raise\<close> or implicitly (indexing an empty list, reading an attribute of
  \<^verbatim>\<open>None\<close>, reading a local that was never assigned, \<^verbatim>\<open>next\<close> on an exhausted
  iterator).
\<close>

datatype error =
    EC2ResponseError
  | ValueError_zone_mismatch
  | ValueError_multiple_matches
  | AttributeError_groups_without_vpc
  | AttributeError_no_default_vpc
  | AttributeError_NoneType
  | InvalidConfigurationException
  | UnboundLocalError
  | IndexError
  | StopIteration

text \<open>Truthiness of a value that is a string or \<^verbatim>\<open>None\<close>, and of an integer or \<^verbatim>\<open>None\<close>.\<close>

fun truthy :: "string option \<Rightarrow> bool" where
  "truthy None = False"
| "truthy (Some s) = (s \<noteq> [])"

fun truthy_int :: "int option \<Rightarrow> bool" where
  "truthy_int None = False"
| "truthy_int (Some n) = (n \<noteq> 0)"

text \<open>
  A call to the provider either answers or raises \<^verbatim>\<open>EC2ResponseError\<close>
  (botocore's \<^verbatim>\<open>ClientError\<close>), the one provider exception the source handles.
\<close>

datatype 'a reply = Ok 'a | ClientError

datatype pyval = PNone | PStr string | PInt int

text \<open>A boto resource object; the wrapping CloudBridge class reads its id and description.\<close>

record resource =
  res_id :: string
  res_description :: "string option"

text \<open>
  boto's \<^verbatim>\<open>BlockDeviceType\<close>, with the attributes the builder assigns; a fresh one
  has none of them set. A \<^verbatim>\<open>BlockDeviceMapping\<close> is a dict from device names to
  such objects: an association list in insertion order, where assigning to a key that is
  present replaces its value in place.
\<close>

record block_device_type =
  bdt_snapshot_id :: "string option"
  bdt_volume_id :: "string option"
  bdt_delete_on_terminate :: "bool option"
  bdt_size :: "int option"
  bdt_ephemeral_name :: "string option"

definition BlockDeviceType :: block_device_type where
  "BlockDeviceType = \<lparr>bdt_snapshot_id = None, bdt_volume_id = None,
     bdt_delete_on_terminate = None, bdt_size = None, bdt_ephemeral_name = None\<rparr>"

type_synonym block_device_mapping = "(string \<times> block_device_type) list"

fun dict_set :: "'k \<Rightarrow> 'v \<Rightarrow> ('k \<times> 'v) list \<Rightarrow> ('k \<times> 'v) list" where
  "dict_set k v [] = [(k, v)]"
| "dict_set k v ((k', v') # m) = (if k' = k then (k, v) # m else (k', v') # dict_set k v m)"

text \<open>The arguments of \<^verbatim>\<open>ec2_conn.run_instances\<close>.\<close>

record run_args =
  ra_image_id :: string
  ra_instance_type :: string
  ra_placement :: "string option"
  ra_key_name :: "string option"
  ra_security_group_ids :: "string list"
  ra_user_data :: "string option"
  ra_block_device_map :: "block_device_mapping option"
  ra_subnet_id :: "string option"

text \<open>The calls that change something at the provider.\<close>

datatype call =
    CreateCall string "(string \<times> pyval) list"
  | DeleteCall string
  | SetName string string
  | SetDescription string "string option"
  | RunInstances run_args

text \<open>
  What a run has done so far: the mutating calls it issued (oldest first), the number of
  read calls it issued, and the seconds it spent in \<^verbatim>\<open>time.sleep\<close>. The provider's
  answers may depend on all of it, so a resource can become visible after some polls.
\<close>

record world =
  issued :: "call list"
  reads :: nat
  slept :: nat

definition sleep :: "nat \<Rightarrow> world \<Rightarrow> world" where
  "sleep n w = w\<lparr>slept := slept w + n\<rparr>"

definition issue :: "call \<Rightarrow> world \<Rightarrow> world" where
  "issue c w = w\<lparr>issued := issued w @ [c]\<rparr>"

definition did_read :: "world \<Rightarrow> world" where
  "did_read w = w\<lparr>reads := reads w + 1\<rparr>"

section \<open>EC2ServiceFilter\<close>

text \<open>
  \<^verbatim>\<open>EC2ServiceFilter(provider, service, cb_iface)\<close>: the bound collection
  (\<^verbatim>\<open>self.service\<close>), the connection's methods, and the wrapping class
  \<^verbatim>\<open>cb_iface\<close>. The wrapping classes live in \<^verbatim>\<open>resources.py\<close>; what the filter
  needs of them is whether the class has a callable \<^verbatim>\<open>refresh\<close> and what that
  call and the resource's own \<^verbatim>\<open>delete\<close> answer. Objects of these classes are
  truthy.
\<close>

record ec2_service_filter =
  service_filter :: "world \<Rightarrow> string \<Rightarrow> string \<Rightarrow> resource list reply"
  conn_method :: "world \<Rightarrow> string \<Rightarrow> (string \<times> pyval) list \<Rightarrow> resource option reply"
  resource_delete :: "world \<Rightarrow> resource \<Rightarrow> unit reply"
  iface_has_refresh :: bool
  iface_refresh :: "world \<Rightarrow> resource \<Rightarrow> unit reply"

text \<open>
  \<^verbatim>\<open>get(val, filter_name, wrapper)\<close>: the first object of
  \<^verbatim>\<open>service.filter(Filters=[...]).limit(1)\<close>, or \<^verbatim>\<open>None\<close> when there is none or
  the provider raised.
\<close>

definition get :: "ec2_service_filter \<Rightarrow> string \<Rightarrow> string \<Rightarrow> bool \<Rightarrow> world \<Rightarrow> resource option \<times> world" where
  "get f val filter_name wrapper w =
     (case service_filter f w filter_name val of
        ClientError \<Rightarrow> (None, did_read w)
      | Ok objs \<Rightarrow> (case objs of [] \<Rightarrow> (None, did_read w) | obj # _ \<Rightarrow> (Some obj, did_read w)))"

text \<open>
  \<^verbatim>\<open>create(method, **kwargs)\<close>: a provider error propagates; a falsy answer gives
  \<^verbatim>\<open>None\<close>.
\<close>

definition create :: "ec2_service_filter \<Rightarrow> string \<Rightarrow> (string \<times> pyval) list \<Rightarrow> world \<Rightarrow> (error + resource option) \<times> world" where
  "create f method kwargs w =
     (case conn_method f w method kwargs of
        ClientError \<Rightarrow> (Inl EC2ResponseError, issue (CreateCall method kwargs) w)
      | Ok res \<Rightarrow> (Inr res, issue (CreateCall method kwargs) w))"

text \<open>\<^verbatim>\<open>delete(val, filter_name)\<close>.\<close>

definition delete :: "ec2_service_filter \<Rightarrow> string \<Rightarrow> string \<Rightarrow> world \<Rightarrow> bool \<times> world" where
  "delete f val filter_name w =
     (case get f val filter_name False w of
        (Some res, w1) \<Rightarrow>
          (case resource_delete f w1 res of
             ClientError \<Rightarrow> (False, issue (DeleteCall (res_id res)) w1)
           | Ok _ \<Rightarrow> (True, issue (DeleteCall (res_id res)) w1))
      | (None, w1) \<Rightarrow> (True, w1))"

text \<open>
  \<^verbatim>\<open>wait_for_create(val, filter_name, timeout=15)\<close>. The result is Python's
  \<^verbatim>\<open>True\<close>, \<^verbatim>\<open>False\<close> or \<^verbatim>\<open>None\<close>: \<open>Some True\<close>, \<open>Some False\<close>, \<open>None\<close>.
  An error of \<^verbatim>\<open>obj.refresh()\<close> propagates.
\<close>

function wait_for_create :: "ec2_service_filter \<Rightarrow> string \<Rightarrow> string \<Rightarrow> int \<Rightarrow> world \<Rightarrow> (error + bool option) \<times> world" where
  "wait_for_create f val filter_name timeout w =
     (if timeout > 0 then
        (case get f val filter_name True (sleep 2 w) of
           (Some obj, w2) \<Rightarrow>
             (if iface_has_refresh f then
                (case iface_refresh f w2 obj of
                   ClientError \<Rightarrow> (Inl EC2ResponseError, did_read w2)
                 | Ok _ \<Rightarrow> (Inr (Some True), did_read w2))
              else (Inr None, w2))
         | (None, w2) \<Rightarrow> wait_for_create f val filter_name (timeout - 1) w2)
      else (Inr (Some False), w))"
  by pat_completeness auto
termination
  by (relation "measure (\<lambda>(f, val, filter_name, timeout, w). nat timeout)") auto

text \<open>\<^verbatim>\<open>wait_for_delete(val, filter_name, timeout=15)\<close>.\<close>

function wait_for_delete :: "ec2_service_filter \<Rightarrow> string \<Rightarrow> string \<Rightarrow> int \<Rightarrow> world \<Rightarrow> bool \<times> world" where
  "wait_for_delete f val filter_name timeout w =
     (if timeout > 0 then
        (case get f val filter_name True (sleep 2 w) of
           (None, w2) \<Rightarrow> (True, w2)
         | (Some obj, w2) \<Rightarrow> wait_for_delete f val filter_name (timeout - 1) w2)
      else (False, w))"
  by pat_completeness auto
termination
  by (relation "measure (\<lambda>(f, val, filter_name, timeout, w). nat timeout)") auto

text \<open>The default of the \<^verbatim>\<open>timeout\<close> parameter of both wait functions.\<close>

definition default_timeout :: int where
  "default_timeout = 15"

text \<open>Truthiness of the result of \<^verbatim>\<open>wait_for_create\<close>.\<close>

fun truthy_outcome :: "bool option \<Rightarrow> bool" where
  "truthy_outcome None = False"
| "truthy_outcome (Some b) = b"

section \<open>The services built on the filter\<close>

definition pstr :: "string option \<Rightarrow> pyval" where
  "pstr s = (case s of None \<Rightarrow> PNone | Some x \<Rightarrow> PStr x)"

definition pint :: "int option \<Rightarrow> pyval" where
  "pint n = (case n of None \<Rightarrow> PNone | Some x \<Rightarrow> PInt x)"

text \<open>
  \<^verbatim>\<open>AWSSecurityGroupService.create(name, description, network_id=None)\<close>. Reading
  \<^verbatim>\<open>res.id\<close> of a \<^verbatim>\<open>None\<close> result raises AttributeError.
\<close>

definition AWSSecurityGroupService_create :: "ec2_service_filter \<Rightarrow> string \<Rightarrow> string \<Rightarrow> world \<Rightarrow> (error + resource option) \<times> world" where
  "AWSSecurityGroupService_create f name description w =
     (case create f ''create_security_group''
             [(''GroupName'', PStr name), (''Description'', PStr description)] w of
        (Inl e, w1) \<Rightarrow> (Inl e, w1)
      | (Inr None, w1) \<Rightarrow> (Inl AttributeError_NoneType, w1)
      | (Inr (Some res), w1) \<Rightarrow>
          (case wait_for_create f (res_id res) ''group-id'' default_timeout w1 of
             (Inl e, w2) \<Rightarrow> (Inl e, w2)
           | (Inr r, w2) \<Rightarrow>
               (if \<not> truthy_outcome r then (Inr None, w2) else (Inr (Some res), w2))))"

text \<open>
  \<^verbatim>\<open>AWSVolumeService.create(name, size, zone, snapshot=None, iops=None, description=None)\<close>,
  with \<^verbatim>\<open>zone\<close> and \<^verbatim>\<open>snapshot\<close> already reduced to their ids (the first two
  statements of the method); \<open>volume_params\<close> is the dict \<^verbatim>\<open>params\<close>. Assigning
  \<^verbatim>\<open>res.name\<close> and \<^verbatim>\<open>res.description\<close> goes to the provider.
\<close>

definition volume_params :: "int option \<Rightarrow> string option \<Rightarrow> string option \<Rightarrow> int option \<Rightarrow> (string \<times> pyval) list" where
  "volume_params vsize zone_id snapshot_id iops =
     [(''Size'', pint vsize), (''AvailabilityZone'', pstr zone_id)]
     @ (if truthy_int iops then [(''Iops'', pint iops)] else [])
     @ (if truthy snapshot_id then [(''SnapshotId'', pstr snapshot_id)] else [])"

definition AWSVolumeService_create :: "ec2_service_filter \<Rightarrow> string \<Rightarrow> int option \<Rightarrow> string option \<Rightarrow> string option \<Rightarrow> int option \<Rightarrow> string option \<Rightarrow> world \<Rightarrow> (error + resource option) \<times> world" where
  "AWSVolumeService_create f name vsize zone_id snapshot_id iops description w =
     (case create f ''create_volume'' (volume_params vsize zone_id snapshot_id iops) w of
        (Inl e, w1) \<Rightarrow> (Inl e, w1)
      | (Inr None, w1) \<Rightarrow> (Inl AttributeError_NoneType, w1)
      | (Inr (Some res), w1) \<Rightarrow>
          (case wait_for_create f (res_id res) ''volume-id'' default_timeout w1 of
             (Inl e, w2) \<Rightarrow> (Inl e, w2)
           | (Inr r, w2) \<Rightarrow>
               (if \<not> truthy_outcome r then (Inr None, w2)
                else
                  (let w3 = issue (SetName (res_id res) name) w2
                   in if truthy (res_description res)
                      then (Inr (Some res), issue (SetDescription (res_id res) description) w3)
                      else (Inr (Some res), w3)))))"

text \<open>\<^verbatim>\<open>AWSSnapshotService.create(name, volume, description=None)\<close>.\<close>

definition AWSSnapshotService_create :: "ec2_service_filter \<Rightarrow> string \<Rightarrow> string \<Rightarrow> string option \<Rightarrow> world \<Rightarrow> (error + resource option) \<times> world" where
  "AWSSnapshotService_create f name volume_id description w =
     (case create f ''create_snapshot'' [(''VolumeId'', PStr volume_id)] w of
        (Inl e, w1) \<Rightarrow> (Inl e, w1)
      | (Inr None, w1) \<Rightarrow> (Inl AttributeError_NoneType, w1)
      | (Inr (Some res), w1) \<Rightarrow>
          (case wait_for_create f (res_id res) ''snapshot-id'' default_timeout w1 of
             (Inl e, w2) \<Rightarrow> (Inl e, w2)
           | (Inr r, w2) \<Rightarrow>
               (if \<not> truthy_outcome r then (Inr None, w2)
                else
                  (let w3 = issue (SetName (res_id res) name) w2
                   in if truthy (res_description res)
                      then (Inr (Some res), issue (SetDescription (res_id res) description) w3)
                      else (Inr (Some res), w3)))))"

section \<open>Launch options\<close>

text \<open>
  What \<^verbatim>\<open>_resolve_launch_options\<close> reads of the provider: a boto subnet
  (\<^verbatim>\<open>vpc_conn.get_all_subnets\<close>), a wrapped subnet (\<^verbatim>\<open>sn.id\<close>,
  \<^verbatim>\<open>sn._subnet.availability_zone\<close>), a network (\<^verbatim>\<open>vpc.id\<close>,
  \<^verbatim>\<open>vpc._vpc.is_default\<close>, \<^verbatim>\<open>vpc.subnets()\<close>) and a security group
  (\<^verbatim>\<open>sg.id\<close>, \<^verbatim>\<open>sg.name\<close>, \<^verbatim>\<open>sg._security_group.vpc_id\<close>).
\<close>

record boto_subnet =
  bs_vpc_id :: string
  bs_availability_zone :: string

record aws_subnet =
  sn_id :: string
  sn_availability_zone :: string

record aws_network =
  net_id :: string
  is_default :: bool
  subnets :: "aws_subnet list"

record aws_security_group =
  sg_id :: string
  sg_name :: string
  sg_vpc_id :: "string option"

record topology =
  get_all_subnets :: "string \<Rightarrow> boto_subnet list"
  get_all_security_groups :: "string option \<Rightarrow> aws_security_group list"
  security_groups_get :: "string \<Rightarrow> aws_security_group option"
  network_get :: "string \<Rightarrow> aws_network option"
  network_list :: "aws_network list"

text \<open>The \<^verbatim>\<open>security_groups\<close> argument: a list of objects or a list of names.\<close>

datatype sg_arg = SGObjects "aws_security_group list" | SGNames "string list"

fun truthy_sgs :: "sg_arg option \<Rightarrow> bool" where
  "truthy_sgs None = False"
| "truthy_sgs (Some (SGObjects sgs)) = (sgs \<noteq> [])"
| "truthy_sgs (Some (SGNames names)) = (names \<noteq> [])"

text \<open>
  The loop of \<^verbatim>\<open>_deduce_subnet_and_zone\<close> over \<^verbatim>\<open>vpc.subnets()\<close>: the local
  \<^verbatim>\<open>subnet_id\<close> starts unassigned (\<open>None\<close>) and every subnet of the zone assigns it.
\<close>

fun subnet_in_zone :: "aws_subnet list \<Rightarrow> string \<Rightarrow> string option \<Rightarrow> string option" where
  "subnet_in_zone [] zone_id subnet_id = subnet_id"
| "subnet_in_zone (sn # sns) zone_id subnet_id =
     (if sn_availability_zone sn = zone_id then subnet_in_zone sns zone_id (Some (sn_id sn))
      else subnet_in_zone sns zone_id subnet_id)"

definition deduce_subnet_and_zone :: "aws_network \<Rightarrow> string option \<Rightarrow> error + (string option \<times> string option)" where
  "deduce_subnet_and_zone vpc zone_id =
     (if truthy zone_id then
        (case subnet_in_zone (subnets vpc) (the zone_id) None of
           None \<Rightarrow> Inl UnboundLocalError
         | Some subnet_id \<Rightarrow> Inr (Some subnet_id, zone_id))
      else
        (case subnets vpc of
           [] \<Rightarrow> Inl IndexError
         | sn # _ \<Rightarrow> Inr (Some (sn_id sn), Some (sn_availability_zone sn))))"

text \<open>\<^verbatim>\<open>_process_security_groups(security_groups, vpc_id)\<close>.\<close>

definition process_security_groups :: "topology \<Rightarrow> sg_arg \<Rightarrow> string option \<Rightarrow> string list" where
  "process_security_groups env security_groups vpc_id =
     (case security_groups of
        SGObjects sgs \<Rightarrow> map sg_id sgs
      | SGNames names \<Rightarrow>
          map sg_id (filter (\<lambda>sg. sg_name sg \<in> set names)
            (get_all_security_groups env (if truthy vpc_id then vpc_id else None))))"

text \<open>
  The loop over \<^verbatim>\<open>_sg_ids\<close>, on the variables \<^verbatim>\<open>sg_ids\<close>, \<^verbatim>\<open>subnet_id\<close> and
  \<^verbatim>\<open>zone_id\<close>.
\<close>

fun sg_loop :: "topology \<Rightarrow> string list \<Rightarrow> string list \<times> string option \<times> string option \<Rightarrow> error + (string list \<times> string option \<times> string option)" where
  "sg_loop env [] st = Inr st"
| "sg_loop env (sgid # rest) (sg_ids, subnet_id, zone_id) =
     (case security_groups_get env sgid of
        None \<Rightarrow> Inl AttributeError_NoneType
      | Some sg \<Rightarrow>
          (if truthy (sg_vpc_id sg) then
             (if sg_ids \<noteq> [] \<and> sgid \<notin> set sg_ids then Inl ValueError_multiple_matches
              else
                (case network_get env (the (sg_vpc_id sg)) of
                   None \<Rightarrow> Inl AttributeError_NoneType
                 | Some vpc \<Rightarrow>
                     (case deduce_subnet_and_zone vpc zone_id of
                        Inl e \<Rightarrow> Inl e
                      | Inr (subnet_id', zone_id') \<Rightarrow>
                          sg_loop env rest (sg_ids @ [sgid], subnet_id', zone_id'))))
           else sg_loop env rest (sg_ids, subnet_id, zone_id)))"

text \<open>
  The loop over \<^verbatim>\<open>self.provider.network.list()\<close>, on the variables \<^verbatim>\<open>vpc_id\<close>,
  \<^verbatim>\<open>subnet_id\<close> and \<^verbatim>\<open>zone_id\<close>.
\<close>

fun default_vpc_loop :: "aws_network list \<Rightarrow> string option \<times> string option \<times> string option \<Rightarrow> error + (string option \<times> string option \<times> string option)" where
  "default_vpc_loop [] st = Inr st"
| "default_vpc_loop (vpc # rest) (vpc_id, subnet_id, zone_id) =
     (if is_default vpc then
        (case deduce_subnet_and_zone vpc zone_id of
           Inl e \<Rightarrow> Inl e
         | Inr (subnet_id', zone_id') \<Rightarrow>
             default_vpc_loop rest (Some (net_id vpc), subnet_id', zone_id'))
      else default_vpc_loop rest (vpc_id, subnet_id, zone_id))"

text \<open>
  \<^verbatim>\<open>_resolve_launch_options(subnet_id, zone_id, security_groups)\<close> in its three
  stages: a supplied subnet, supplied security groups, the default network.
\<close>

definition supplied_subnet :: "topology \<Rightarrow> string option \<Rightarrow> string option \<Rightarrow> error + string option" where
  "supplied_subnet env subnet_id zone_id =
     (if truthy subnet_id then
        (case get_all_subnets env (the subnet_id) of
           [] \<Rightarrow> Inl IndexError
         | subnet # _ \<Rightarrow>
             (if truthy zone_id \<and> bs_availability_zone subnet \<noteq> the zone_id
              then Inl ValueError_zone_mismatch
              else Inr (Some (bs_vpc_id subnet))))
      else Inr None)"

definition supplied_groups :: "topology \<Rightarrow> sg_arg option \<Rightarrow> string option \<Rightarrow> string option \<times> string option \<Rightarrow> error + (string list \<times> string option \<times> string option)" where
  "supplied_groups env security_groups vpc_id st =
     (case st of (subnet_id, zone_id) \<Rightarrow>
        (if truthy_sgs security_groups then
           (case (if \<not> truthy subnet_id
                  then sg_loop env (process_security_groups env (the security_groups) vpc_id)
                         ([], subnet_id, zone_id)
                  else Inr (process_security_groups env (the security_groups) vpc_id,
                         subnet_id, zone_id)) of
              Inl e \<Rightarrow> Inl e
            | Inr (sg_ids, subnet_id', zone_id') \<Rightarrow>
                (if \<not> truthy subnet_id' then Inl AttributeError_groups_without_vpc
                 else Inr (sg_ids, subnet_id', zone_id')))
         else Inr ([], subnet_id, zone_id)))"

definition resolve_launch_options :: "topology \<Rightarrow> string option \<Rightarrow> string option \<Rightarrow> sg_arg option \<Rightarrow> error + (string option \<times> string option \<times> string list)" where
  "resolve_launch_options env subnet_id zone_id security_groups =
     (case supplied_subnet env subnet_id zone_id of
        Inl e \<Rightarrow> Inl e
      | Inr vpc_id \<Rightarrow>
          (case supplied_groups env security_groups vpc_id (subnet_id, zone_id) of
             Inl e \<Rightarrow> Inl e
           | Inr (sg_ids, subnet_id1, zone_id1) \<Rightarrow>
               (if \<not> truthy subnet_id1 \<and> \<not> truthy_sgs security_groups then
                  (case default_vpc_loop (network_list env) (vpc_id, subnet_id1, zone_id1) of
                     Inl e \<Rightarrow> Inl e
                   | Inr (vpc_id2, subnet_id2, zone_id2) \<Rightarrow>
                       (if \<not> truthy vpc_id2 then Inl AttributeError_no_default_vpc
                        else Inr (subnet_id2, zone_id2, sg_ids)))
                else Inr (subnet_id1, zone_id1, sg_ids))))"

section \<open>Block device mappings\<close>

text \<open>
  A block device of a launch configuration; \<^verbatim>\<open>device.source\<close> is a snapshot, a
  volume, a machine image (each with its id) or \<^verbatim>\<open>None\<close>.
\<close>

datatype source = Snapshot string | Volume string | MachineImage string

record block_device =
  dev_is_volume :: bool
  dev_is_root :: bool
  dev_source :: "source option"
  dev_size :: "int option"
  dev_delete_on_terminate :: "bool option"

record launch_config =
  block_devices :: "block_device list"
  network_interfaces :: "string list"

definition ascii_lowercase :: string where
  "ascii_lowercase = ''abcdefghijklmnopqrstuvwxyz''"

text \<open>\<^verbatim>\<open>'%s' % n\<close> for a natural number.\<close>

function str_nat :: "nat \<Rightarrow> string" where
  "str_nat n =
     (if n < 10 then [''0123456789'' ! n]
      else str_nat (n div 10) @ [''0123456789'' ! (n mod 10)])"
  by pat_completeness auto
termination
  by (relation "measure id") auto

text \<open>
  One round of the loop of \<^verbatim>\<open>_process_block_device_mappings\<close>, on the variables
  \<^verbatim>\<open>bdm\<close>, \<^verbatim>\<open>next_letter\<close> (the letters the iterator has not given out yet) and
  \<^verbatim>\<open>ephemeral_counter\<close>. The device's \<^verbatim>\<open>bd_type\<close> enters the mapping before its
  attributes are assigned; the mapping holds the same object, so the entry is written
  again once they are. A failure of \<^verbatim>\<open>volumes.create\<close> to return a volume makes
  \<^verbatim>\<open>new_vol.id\<close> raise AttributeError.
\<close>

definition process_device :: "ec2_service_filter \<Rightarrow> string option \<Rightarrow> block_device \<Rightarrow> block_device_mapping \<times> string \<times> nat \<Rightarrow> world \<Rightarrow> (error + (block_device_mapping \<times> string \<times> nat)) \<times> world" where
  "process_device volumes zone device st w =
     (case st of (bdm, next_letter, ephemeral_counter) \<Rightarrow>
        (if dev_is_volume device then
           (case (if dev_is_root device then Inr (''/dev/sda1'', next_letter)
                  else (case next_letter of
                          [] \<Rightarrow> Inl StopIteration
                        | c # cs \<Rightarrow> Inr (''sd'' @ [c], cs))) of
              Inl e \<Rightarrow> (Inl e, w)
            | Inr (key, next_letter') \<Rightarrow>
                (case (case dev_source device of
                         Some (Snapshot sid) \<Rightarrow>
                           (Inr (BlockDeviceType\<lparr>bdt_snapshot_id := Some sid\<rparr>), w)
                       | Some (Volume vid) \<Rightarrow>
                           (Inr (BlockDeviceType\<lparr>bdt_volume_id := Some vid\<rparr>), w)
                       | Some (MachineImage _) \<Rightarrow> (Inr BlockDeviceType, w)
                       | None \<Rightarrow>
                           (if \<not> truthy zone then (Inl InvalidConfigurationException, w)
                            else
                              (case AWSVolumeService_create volumes '''' (dev_size device) zone
                                      None None None w of
                                 (Inl e, w1) \<Rightarrow> (Inl e, w1)
                               | (Inr None, w1) \<Rightarrow> (Inl AttributeError_NoneType, w1)
                               | (Inr (Some new_vol), w1) \<Rightarrow>
                                   (Inr (BlockDeviceType\<lparr>bdt_volume_id := Some (res_id new_vol)\<rparr>),
                                    w1)))) of
                   (Inl e, w1) \<Rightarrow> (Inl e, w1)
                 | (Inr bd_type, w1) \<Rightarrow>
                     (let bd_type1 = bd_type\<lparr>bdt_delete_on_terminate := dev_delete_on_terminate device\<rparr>;
                          bd_type2 = (if truthy_int (dev_size device)
                                      then bd_type1\<lparr>bdt_size := dev_size device\<rparr>
                                      else bd_type1)
                      in (Inr (dict_set key bd_type2 (dict_set key BlockDeviceType bdm),
                               next_letter', ephemeral_counter), w1))))
         else
           (let bd_type = BlockDeviceType\<lparr>bdt_ephemeral_name :=
                            Some (''ephemeral'' @ str_nat ephemeral_counter)\<rparr>
            in (Inr (bdm, next_letter, ephemeral_counter), w))))"

fun process_devices :: "ec2_service_filter \<Rightarrow> string option \<Rightarrow> block_device list \<Rightarrow> block_device_mapping \<times> string \<times> nat \<Rightarrow> world \<Rightarrow> (error + (block_device_mapping \<times> string \<times> nat)) \<times> world" where
  "process_devices volumes zone [] st w = (Inr st, w)"
| "process_devices volumes zone (device # devices) st w =
     (case process_device volumes zone device st w of
        (Inl e, w1) \<Rightarrow> (Inl e, w1)
      | (Inr st1, w1) \<Rightarrow> process_devices volumes zone devices st1 w1)"

text \<open>\<^verbatim>\<open>_process_block_device_mappings(launch_config, zone=None)\<close>.\<close>

definition process_block_device_mappings :: "ec2_service_filter \<Rightarrow> launch_config \<Rightarrow> string option \<Rightarrow> world \<Rightarrow> (error + block_device_mapping) \<times> world" where
  "process_block_device_mappings volumes lc zone w =
     (case process_devices volumes zone (block_devices lc) ([], drop 6 ascii_lowercase, 0) w of
        (Inl e, w1) \<Rightarrow> (Inl e, w1)
      | (Inr (bdm, _), w1) \<Rightarrow> (Inr bdm, w1))"

text \<open>\<^verbatim>\<open>_get_net_id(launch_config)\<close>.\<close>

definition get_net_id :: "launch_config \<Rightarrow> string option" where
  "get_net_id lc =
     (if length (network_interfaces lc) > 0 then Some (hd (network_interfaces lc)) else None)"

section \<open>Launching an instance\<close>

text \<open>
  The provider as \<^verbatim>\<open>AWSInstanceService\<close> uses it: the filter of the volume service,
  the reads of the resolver, and \<^verbatim>\<open>ec2_conn.run_instances\<close>, which answers with a
  reservation (here the ids of its instances) or a falsy value.
\<close>

record provider =
  volumes_iface :: ec2_service_filter
  launch_topology :: topology
  run_instances :: "world \<Rightarrow> run_args \<Rightarrow> string list option reply"

text \<open>
  \<^verbatim>\<open>AWSInstanceService.create\<close>, with \<^verbatim>\<open>image\<close>, \<^verbatim>\<open>instance_type\<close>,
  \<^verbatim>\<open>zone\<close> and \<^verbatim>\<open>key_pair\<close> already reduced to their ids (the first four
  statements of the method). A launch configuration object is truthy, so
  \<^verbatim>\<open>if launch_config\<close> asks whether one was given. The result is the id of the
  wrapped instance or \<^verbatim>\<open>None\<close>.
\<close>

definition AWSInstanceService_create :: "provider \<Rightarrow> string \<Rightarrow> string \<Rightarrow> string \<Rightarrow> string option \<Rightarrow> string option \<Rightarrow> sg_arg option \<Rightarrow> string option \<Rightarrow> launch_config option \<Rightarrow> world \<Rightarrow> (error + string option) \<times> world" where
  "AWSInstanceService_create p name image_id instance_size zone_id key_pair_name
       security_groups user_data lc w =
     (case (case lc of
              Some launch_config \<Rightarrow>
                (case process_block_device_mappings (volumes_iface p) launch_config zone_id w of
                   (Inl e, w1) \<Rightarrow> (Inl e, w1)
                 | (Inr bdm, w1) \<Rightarrow> (Inr (Some bdm, get_net_id launch_config), w1))
            | None \<Rightarrow> (Inr (None, None), w)) of
        (Inl e, w1) \<Rightarrow> (Inl e, w1)
      | (Inr (bdm, subnet_id), w1) \<Rightarrow>
          (case resolve_launch_options (launch_topology p) subnet_id zone_id security_groups of
             Inl e \<Rightarrow> (Inl e, w1)
           | Inr (subnet_id', zone_id', security_group_ids) \<Rightarrow>
               (let args = \<lparr>ra_image_id = image_id, ra_instance_type = instance_size,
                             ra_placement = zone_id', ra_key_name = key_pair_name,
                             ra_security_group_ids = security_group_ids,
                             ra_user_data = user_data, ra_block_device_map = bdm,
                             ra_subnet_id = subnet_id'\<rparr>;
                    w2 = issue (RunInstances args) w1
                in (case run_instances p w1 args of
                      ClientError \<Rightarrow> (Inl EC2ResponseError, w2)
                    | Ok None \<Rightarrow> (Inr None, w2)
                    | Ok (Some instances) \<Rightarrow>
                        (case instances of
                           [] \<Rightarrow> (Inl IndexError, sleep 2 w2)
                         | inst # _ \<Rightarrow> (Inr (Some inst), issue (SetName inst name) (sleep 2 w2)))))))"

section \<open>Example providers\<close>

text \<open>
  A filter whose resource becomes visible once \<open>visible_from\<close> reads have been issued;
  its wrapping class has a \<^verbatim>\<open>refresh\<close> or not, and its delete call succeeds or not.
\<close>

definition example_filter :: "nat \<Rightarrow> bool \<Rightarrow> bool \<Rightarrow> ec2_service_filter" where
  "example_filter visible_from can_refresh delete_ok =
     \<lparr>service_filter = (\<lambda>w filter_name val.
          if visible_from \<le> reads w then Ok [\<lparr>res_id = val, res_description = None\<rparr>] else Ok []),
      conn_method = (\<lambda>w method kwargs. Ok (Some \<lparr>res_id = ''r-1'', res_description = None\<rparr>)),
      resource_delete = (\<lambda>w res. if delete_ok then Ok () else ClientError),
      iface_has_refresh = can_refresh,
      iface_refresh = (\<lambda>w res. Ok ())\<rparr>"

text \<open>A filter whose resource is visible until \<open>gone_from\<close> reads have been issued.\<close>

definition example_filter_until :: "nat \<Rightarrow> ec2_service_filter" where
  "example_filter_until gone_from =
     \<lparr>service_filter = (\<lambda>w filter_name val.
          if reads w < gone_from then Ok [\<lparr>res_id = val, res_description = None\<rparr>] else Ok []),
      conn_method = (\<lambda>w method kwargs. Ok (Some \<lparr>res_id = ''r-1'', res_description = None\<rparr>)),
      resource_delete = (\<lambda>w res. Ok ()),
      iface_has_refresh = True,
      iface_refresh = (\<lambda>w res. Ok ())\<rparr>"

definition world0 :: world where
  "world0 = \<lparr>issued = [], reads = 0, slept = 0\<rparr>"

text \<open>
  An account with one network, the default one, with three subnets: two in zone
  \<^verbatim>\<open>us-east-1a\<close> and one in \<^verbatim>\<open>us-east-1b\<close>; and one security group in that network.
\<close>

definition example_vpc :: aws_network where
  "example_vpc = \<lparr>net_id = ''vpc-1'', is_default = True,
     subnets = [\<lparr>sn_id = ''subnet-1'', sn_availability_zone = ''us-east-1a''\<rparr>,
                \<lparr>sn_id = ''subnet-2'', sn_availability_zone = ''us-east-1a''\<rparr>,
                \<lparr>sn_id = ''subnet-3'', sn_availability_zone = ''us-east-1b''\<rparr>]\<rparr>"

definition example_sg :: aws_security_group where
  "example_sg = \<lparr>sg_id = ''sg-1'', sg_name = ''web'', sg_vpc_id = Some ''vpc-1''\<rparr>"

definition example_topology :: topology where
  "example_topology =
     \<lparr>get_all_subnets = (\<lambda>subnet_id.
          if subnet_id = ''subnet-1''
          then [\<lparr>bs_vpc_id = ''vpc-1'', bs_availability_zone = ''us-east-1a''\<rparr>]
          else if subnet_id = ''subnet-3''
          then [\<lparr>bs_vpc_id = ''vpc-1'', bs_availability_zone = ''us-east-1b''\<rparr>]
          else []),
      get_all_security_groups = (\<lambda>filters. [example_sg]),
      security_groups_get = (\<lambda>sgid. if sgid = ''sg-1'' then Some example_sg else None),
      network_get = (\<lambda>vpc_id. if vpc_id = ''vpc-1'' then Some example_vpc else None),
      network_list = [example_vpc]\<rparr>"

text \<open>
  A blank volume is a volume device without a source; a volume device that is not the
  root device takes a letter. \<open>is_run_instances\<close> picks the instance-creating calls out
  of the calls issued.
\<close>

definition blank_volume :: "block_device \<Rightarrow> bool" where
  "blank_volume device = (dev_is_volume device \<and> dev_source device = None)"

definition takes_letter :: "block_device \<Rightarrow> bool" where
  "takes_letter device = (dev_is_volume device \<and> \<not> dev_is_root device)"


text \<open>Devices of a launch configuration: an ephemeral one and volumes of each kind.\<close>

definition ephemeral_device :: block_device where
  "ephemeral_device = \<lparr>dev_is_volume = False, dev_is_root = False, dev_source = None,
     dev_size = None, dev_delete_on_terminate = None\<rparr>"

definition root_snapshot_device :: block_device where
  "root_snapshot_device = \<lparr>dev_is_volume = True, dev_is_root = True,
     dev_source = Some (Snapshot ''snap-1''), dev_size = Some 10,
     dev_delete_on_terminate = Some True\<rparr>"

definition snapshot_device :: block_device where
  "snapshot_device = \<lparr>dev_is_volume = True, dev_is_root = False,
     dev_source = Some (Snapshot ''snap-2''), dev_size = None,
     dev_delete_on_terminate = Some True\<rparr>"

definition volume_device :: block_device where
  "volume_device = \<lparr>dev_is_volume = True, dev_is_root = False,
     dev_source = Some (Volume ''vol-7''), dev_size = None,
     dev_delete_on_terminate = Some False\<rparr>"

definition blank_device :: block_device where
  "blank_device = \<lparr>dev_is_volume = True, dev_is_root = False, dev_source = None,
     dev_size = Some 8, dev_delete_on_terminate = Some True\<rparr>"

definition example_provider :: provider where
  "example_provider = \<lparr>volumes_iface = example_filter 0 True True,
     launch_topology = example_topology,
     run_instances = (\<lambda>w args. Ok (Some [''i-1'']))\<rparr>"

section \<open>Properties of the filter\<close>

declare wait_for_create.simps [simp del] wait_for_delete.simps [simp del]

text \<open>The world after \<open>k\<close> polls that found nothing.\<close>

definition polled :: "nat \<Rightarrow> world \<Rightarrow> world" where
  "polled k w = w\<lparr>reads := reads w + k, slept := slept w + 2 * k\<rparr>"

text \<open>
  Whether poll number \<open>j\<close> (from 0) of a wait that starts in \<open>w\<close> finds the resource: the
  poll is issued after \<open>j\<close> earlier polls and \<open>j + 1\<close> sleeps of two seconds.
\<close>

definition seen_at :: "ec2_service_filter \<Rightarrow> string \<Rightarrow> string \<Rightarrow> world \<Rightarrow> nat \<Rightarrow> bool" where
  "seen_at f val filter_name w j =
     (fst (get f val filter_name True (sleep 2 (polled j w))) \<noteq> None)"

lemma snd_get: "snd (get f val filter_name wrapper w) = did_read w"
  by (simp add: get_def split: reply.splits list.splits)

lemma get_cases:
  obtains (absent) "get f val filter_name wrapper w = (None, did_read w)"
  | (present) obj where "get f val filter_name wrapper w = (Some obj, did_read w)"
  by (cases "get f val filter_name wrapper w") (metis snd_get snd_conv option.exhaust)

text \<open>
  C6. If \<^verbatim>\<open>get\<close> finds no resource, \<^verbatim>\<open>delete\<close> returns \<^verbatim>\<open>True\<close> and issues no
  provider call; if it finds one, \<^verbatim>\<open>delete\<close> issues the resource's delete call and
  returns \<^verbatim>\<open>False\<close> exactly when the provider answers that call with an error, and
  \<^verbatim>\<open>True\<close> otherwise.
\<close>

theorem delete_idempotent:
  "(fst (get f val filter_name False w) = None \<longrightarrow>
      fst (delete f val filter_name w) = True \<and>
      issued (snd (delete f val filter_name w)) = issued w)
   \<and> (\<forall>res. fst (get f val filter_name False w) = Some res \<longrightarrow>
      (fst (delete f val filter_name w) = False
         \<longleftrightarrow> resource_delete f (snd (get f val filter_name False w)) res = ClientError)
      \<and> (fst (delete f val filter_name w) = True
         \<longleftrightarrow> resource_delete f (snd (get f val filter_name False w)) res \<noteq> ClientError)
      \<and> issued (snd (delete f val filter_name w)) = issued w @ [DeleteCall (res_id res)])"
  by (auto simp: delete_def get_def issue_def did_read_def
      split: reply.splits list.splits prod.splits option.splits)

theorem delete_idempotent_witness:
  "fst (get (example_filter 1 True True) ''vol-1'' ''volume-id'' False world0) = None
   \<and> fst (delete (example_filter 1 True True) ''vol-1'' ''volume-id'' world0) = True
   \<and> issued (snd (delete (example_filter 1 True True) ''vol-1'' ''volume-id'' world0)) = []
   \<and> fst (get (example_filter 0 True False) ''vol-1'' ''volume-id'' False world0)
       = Some \<lparr>res_id = ''vol-1'', res_description = None\<rparr>
   \<and> fst (delete (example_filter 0 True False) ''vol-1'' ''volume-id'' world0) = False
   \<and> fst (delete (example_filter 0 True True) ''vol-1'' ''volume-id'' world0) = True
   \<and> issued (snd (delete (example_filter 0 True True) ''vol-1'' ''volume-id'' world0))
       = [DeleteCall ''vol-1'']"
  using delete_idempotent [of "example_filter 1 True True" "''vol-1''" "''volume-id''" world0]
    delete_idempotent [of "example_filter 0 True False" "''vol-1''" "''volume-id''" world0]
    delete_idempotent [of "example_filter 0 True True" "''vol-1''" "''volume-id''" world0]
  by (simp add: example_filter_def world0_def get_def did_read_def)

lemma polled_0: "polled 0 w = w"
  by (simp add: polled_def)

lemma polled_Suc: "polled k (did_read (sleep 2 w)) = polled (Suc k) w"
  by (simp add: polled_def did_read_def sleep_def)

lemma polled_step: "did_read (sleep 2 (polled k w)) = polled (Suc k) w"
  by (simp add: polled_def did_read_def sleep_def)

lemma seen_at_0: "seen_at f val filter_name w 0 = (fst (get f val filter_name True (sleep 2 w)) \<noteq> None)"
  by (simp add: seen_at_def polled_0)

lemma seen_at_Suc:
  "seen_at f val filter_name (did_read (sleep 2 w)) j = seen_at f val filter_name w (Suc j)"
  by (simp add: seen_at_def polled_Suc)

lemma wait_for_delete_step:
  "0 < timeout \<Longrightarrow> seen_at f val filter_name w 0 \<Longrightarrow>
   wait_for_delete f val filter_name timeout w =
     wait_for_delete f val filter_name (timeout - 1) (did_read (sleep 2 w))"
  by (cases rule: get_cases [of f val filter_name True "sleep 2 w"])
    (simp_all add: seen_at_0 wait_for_delete.simps [of f val filter_name timeout w])

lemma wait_for_delete_stop:
  "0 < timeout \<Longrightarrow> \<not> seen_at f val filter_name w 0 \<Longrightarrow>
   wait_for_delete f val filter_name timeout w = (True, did_read (sleep 2 w))"
  by (cases rule: get_cases [of f val filter_name True "sleep 2 w"])
    (simp_all add: seen_at_0 wait_for_delete.simps [of f val filter_name timeout w])

lemma wait_for_create_step:
  "0 < timeout \<Longrightarrow> \<not> seen_at f val filter_name w 0 \<Longrightarrow>
   wait_for_create f val filter_name timeout w =
     wait_for_create f val filter_name (timeout - 1) (did_read (sleep 2 w))"
  by (cases rule: get_cases [of f val filter_name True "sleep 2 w"])
    (simp_all add: seen_at_0 wait_for_create.simps [of f val filter_name timeout w])

lemma wait_for_create_stop:
  "0 < timeout \<Longrightarrow> fst (get f val filter_name True (sleep 2 w)) = Some obj \<Longrightarrow>
   wait_for_create f val filter_name timeout w =
     (if iface_has_refresh f then
        (case iface_refresh f (did_read (sleep 2 w)) obj of
           ClientError \<Rightarrow> (Inl EC2ResponseError, did_read (did_read (sleep 2 w)))
         | Ok _ \<Rightarrow> (Inr (Some True), did_read (did_read (sleep 2 w))))
      else (Inr None, did_read (sleep 2 w)))"
  by (cases rule: get_cases [of f val filter_name True "sleep 2 w"])
    (simp_all add: wait_for_create.simps [of f val filter_name timeout w])

lemma wait_for_delete_first_gone:
  "\<forall>j<k. seen_at f val filter_name w j \<Longrightarrow> \<not> seen_at f val filter_name w k \<Longrightarrow>
   k < nat timeout \<Longrightarrow>
   wait_for_delete f val filter_name timeout w = (True, polled (Suc k) w)"
proof (induction k arbitrary: timeout w)
  case 0
  then show ?case by (simp add: wait_for_delete_stop polled_step [of 0 w, simplified polled_0])
next
  case (Suc k)
  have pos: "0 < timeout" using Suc.prems(3) by simp
  have s0: "seen_at f val filter_name w 0" using Suc.prems(1) by simp
  have "wait_for_delete f val filter_name (timeout - 1) (did_read (sleep 2 w))
          = (True, polled (Suc k) (did_read (sleep 2 w)))"
    using Suc.prems by (intro Suc.IH) (auto simp: seen_at_Suc)
  then show ?case by (simp add: wait_for_delete_step [OF pos s0] polled_Suc)
qed

lemma wait_for_delete_never_gone:
  "\<forall>j<nat timeout. seen_at f val filter_name w j \<Longrightarrow>
   wait_for_delete f val filter_name timeout w = (False, polled (nat timeout) w)"
proof (induction "nat timeout" arbitrary: timeout w)
  case 0
  then show ?case by (simp add: wait_for_delete.simps [of f val filter_name timeout w] polled_0)
next
  case (Suc n)
  have pos: "0 < timeout" using Suc.hyps(2) by simp
  have s0: "seen_at f val filter_name w 0" using Suc.prems Suc.hyps(2) by simp
  have n: "n = nat (timeout - 1)" using Suc.hyps(2) by simp
  have "wait_for_delete f val filter_name (timeout - 1) (did_read (sleep 2 w))
          = (False, polled (nat (timeout - 1)) (did_read (sleep 2 w)))"
    using Suc.prems Suc.hyps(2) by (intro Suc.hyps(1) [OF n]) (auto simp: seen_at_Suc)
  moreover have "Suc (nat (timeout - 1)) = nat timeout" using pos by simp
  ultimately show ?case by (simp add: wait_for_delete_step [OF pos s0] polled_Suc)
qed

lemma wait_for_create_first_seen:
  "\<forall>j<k. \<not> seen_at f val filter_name w j \<Longrightarrow>
   fst (get f val filter_name True (sleep 2 (polled k w))) = Some obj \<Longrightarrow>
   k < nat timeout \<Longrightarrow>
   wait_for_create f val filter_name timeout w =
     (if iface_has_refresh f then
        (case iface_refresh f (polled (Suc k) w) obj of
           ClientError \<Rightarrow> (Inl EC2ResponseError, did_read (polled (Suc k) w))
         | Ok _ \<Rightarrow> (Inr (Some True), did_read (polled (Suc k) w)))
      else (Inr None, polled (Suc k) w))"
proof (induction k arbitrary: timeout w)
  case 0
  then have pos: "0 < timeout" by simp
  have g: "fst (get f val filter_name True (sleep 2 w)) = Some obj"
    using 0(2) by (simp add: polled_0)
  show ?case
    by (simp only: wait_for_create_stop [OF pos g] polled_step [of 0 w, simplified polled_0])
next
  case (Suc k)
  have pos: "0 < timeout" using Suc.prems(3) by simp
  have s0: "\<not> seen_at f val filter_name w 0" using Suc.prems(1) by simp
  have "wait_for_create f val filter_name (timeout - 1) (did_read (sleep 2 w)) =
     (if iface_has_refresh f then
        (case iface_refresh f (polled (Suc k) (did_read (sleep 2 w))) obj of
           ClientError \<Rightarrow> (Inl EC2ResponseError, did_read (polled (Suc k) (did_read (sleep 2 w))))
         | Ok _ \<Rightarrow> (Inr (Some True), did_read (polled (Suc k) (did_read (sleep 2 w)))))
      else (Inr None, polled (Suc k) (did_read (sleep 2 w))))"
    using Suc.prems by (intro Suc.IH) (auto simp: seen_at_Suc polled_Suc)
  then show ?case by (simp only: wait_for_create_step [OF pos s0] polled_Suc)
qed

lemma wait_for_create_never_seen:
  "\<forall>j<nat timeout. \<not> seen_at f val filter_name w j \<Longrightarrow>
   wait_for_create f val filter_name timeout w = (Inr (Some False), polled (nat timeout) w)"
proof (induction "nat timeout" arbitrary: timeout w)
  case 0
  then show ?case by (simp add: wait_for_create.simps [of f val filter_name timeout w] polled_0)
next
  case (Suc n)
  have pos: "0 < timeout" using Suc.hyps(2) by simp
  have s0: "\<not> seen_at f val filter_name w 0" using Suc.prems Suc.hyps(2) by simp
  have n: "n = nat (timeout - 1)" using Suc.hyps(2) by simp
  have "wait_for_create f val filter_name (timeout - 1) (did_read (sleep 2 w))
          = (Inr (Some False), polled (nat (timeout - 1)) (did_read (sleep 2 w)))"
    using Suc.prems Suc.hyps(2) by (intro Suc.hyps(1) [OF n]) (auto simp: seen_at_Suc)
  moreover have "Suc (nat (timeout - 1)) = nat timeout" using pos by simp
  ultimately show ?case by (simp add: wait_for_create_step [OF pos s0] polled_Suc)
qed

lemma first_poll_cases:
  obtains (never) "\<forall>j<n. \<not> P j"
  | (first) k where "k < n" "\<forall>j<k. \<not> P j" "P (k::nat)"
proof (cases "\<exists>j<n. P j")
  case False
  then show ?thesis using never by blast
next
  case True
  then obtain j where j: "j < n" "P j" by blast
  define k where "k = (LEAST i. P i)"
  have "P k" unfolding k_def using j(2) by (rule LeastI)
  moreover have "k \<le> j" unfolding k_def using j(2) by (rule Least_le)
  moreover have "\<forall>i<k. \<not> P i" unfolding k_def using not_less_Least by blast
  ultimately show ?thesis using first [of k] j(1) by auto
qed

lemma wait_for_delete_polls:
  "\<exists>k \<le> nat timeout. snd (wait_for_delete f val filter_name timeout w) = polled k w
     \<and> (\<not> fst (wait_for_delete f val filter_name timeout w) \<longrightarrow> k = nat timeout)"
proof (cases rule: first_poll_cases [of "nat timeout" "\<lambda>j. \<not> seen_at f val filter_name w j"])
  case never
  then have "wait_for_delete f val filter_name timeout w = (False, polled (nat timeout) w)"
    by (intro wait_for_delete_never_gone) simp
  then show ?thesis by simp
next
  case (first k)
  then have "wait_for_delete f val filter_name timeout w = (True, polled (Suc k) w)"
    by (intro wait_for_delete_first_gone) simp_all
  then show ?thesis using first(1) by (intro exI [of _ "Suc k"]) simp
qed

lemma wait_for_create_polls:
  "\<exists>k \<le> nat timeout.
     (snd (wait_for_create f val filter_name timeout w) = polled k w
        \<or> snd (wait_for_create f val filter_name timeout w) = did_read (polled k w))
     \<and> (fst (wait_for_create f val filter_name timeout w) = Inr (Some False)
          \<longrightarrow> k = nat timeout \<and> snd (wait_for_create f val filter_name timeout w) = polled k w)"
proof (cases rule: first_poll_cases [of "nat timeout" "\<lambda>j. seen_at f val filter_name w j"])
  case never
  then have "wait_for_create f val filter_name timeout w = (Inr (Some False), polled (nat timeout) w)"
    by (intro wait_for_create_never_seen) simp
  then show ?thesis by simp
next
  case (first k)
  from first(3) obtain obj where
    "fst (get f val filter_name True (sleep 2 (polled k w))) = Some obj"
    by (auto simp: seen_at_def)
  from wait_for_create_first_seen [OF first(2) this first(1)]
  show ?thesis using first(1)
    by (intro exI [of _ "Suc k"]) (auto split: reply.splits)
qed

lemma wait_for_create_timed_out:
  "wait_for_create (example_filter 100 True True) ''vol-1'' ''volume-id'' default_timeout world0
     = (Inr (Some False), \<lparr>issued = [], reads = 15, slept = 30\<rparr>)"
  by (simp add: wait_for_create.simps default_timeout_def example_filter_def world0_def get_def
      sleep_def did_read_def)

lemma wait_for_delete_timed_out:
  "wait_for_delete (example_filter 0 True True) ''vol-1'' ''volume-id'' default_timeout world0
     = (False, \<lparr>issued = [], reads = 15, slept = 30\<rparr>)"
  by (simp add: wait_for_delete.simps default_timeout_def example_filter_def world0_def get_def
      sleep_def did_read_def)

lemma slept_world0: "slept world0 = 0"
  by (simp add: world0_def)

text \<open>
  C8, as the code has it. \<^verbatim>\<open>timeout\<close> counts polls, not seconds. Both wait functions
  sleep two seconds and then poll, at most \<^verbatim>\<open>timeout\<close> times: after \<open>k\<close> polls that did
  not end the wait the world is \<open>polled k w\<close>, with \<open>k\<close> more reads and \<open>2 * k\<close> more
  seconds slept, and poll number \<open>j\<close> is answered in the world \<open>sleep 2 (polled j w)\<close>.
  \<^verbatim>\<open>wait_for_delete\<close> returns \<^verbatim>\<open>True\<close> at the first poll that does not find the
  resource; \<^verbatim>\<open>wait_for_create\<close> returns at the first poll that finds it (after one more
  read when the class has a \<^verbatim>\<open>refresh\<close>); both report the timeout after \<^verbatim>\<open>timeout\<close>
  polls and \<open>2 * timeout\<close> seconds of sleep.
\<close>

theorem wait_sleep_bound:
  "(\<exists>k \<le> nat timeout. snd (wait_for_delete f val filter_name timeout w) = polled k w
      \<and> (\<not> fst (wait_for_delete f val filter_name timeout w) \<longrightarrow> k = nat timeout))
   \<and> (\<exists>k \<le> nat timeout.
        (snd (wait_for_create f val filter_name timeout w) = polled k w
           \<or> snd (wait_for_create f val filter_name timeout w) = did_read (polled k w))
        \<and> (fst (wait_for_create f val filter_name timeout w) = Inr (Some False)
             \<longrightarrow> k = nat timeout \<and> snd (wait_for_create f val filter_name timeout w) = polled k w))
   \<and> ((\<forall>j<k. seen_at f val filter_name w j) \<and> \<not> seen_at f val filter_name w k \<and> k < nat timeout
        \<longrightarrow> wait_for_delete f val filter_name timeout w = (True, polled (Suc k) w))
   \<and> ((\<forall>j<nat timeout. seen_at f val filter_name w j)
        \<longrightarrow> wait_for_delete f val filter_name timeout w = (False, polled (nat timeout) w))
   \<and> ((\<forall>j<k. \<not> seen_at f val filter_name w j)
        \<and> fst (get f val filter_name True (sleep 2 (polled k w))) = Some obj \<and> k < nat timeout
        \<longrightarrow> wait_for_create f val filter_name timeout w =
              (if iface_has_refresh f then
                 (case iface_refresh f (polled (Suc k) w) obj of
                    ClientError \<Rightarrow> (Inl EC2ResponseError, did_read (polled (Suc k) w))
                  | Ok _ \<Rightarrow> (Inr (Some True), did_read (polled (Suc k) w)))
               else (Inr None, polled (Suc k) w)))
   \<and> ((\<forall>j<nat timeout. \<not> seen_at f val filter_name w j)
        \<longrightarrow> wait_for_create f val filter_name timeout w = (Inr (Some False), polled (nat timeout) w))
   \<and> reads (polled k w) = reads w + k \<and> slept (polled k w) = slept w + 2 * k
   \<and> issued (polled k w) = issued w"
proof (intro conjI impI)
  show "\<exists>k \<le> nat timeout. snd (wait_for_delete f val filter_name timeout w) = polled k w
      \<and> (\<not> fst (wait_for_delete f val filter_name timeout w) \<longrightarrow> k = nat timeout)"
    by (rule wait_for_delete_polls)
  show "\<exists>k \<le> nat timeout.
        (snd (wait_for_create f val filter_name timeout w) = polled k w
           \<or> snd (wait_for_create f val filter_name timeout w) = did_read (polled k w))
        \<and> (fst (wait_for_create f val filter_name timeout w) = Inr (Some False)
             \<longrightarrow> k = nat timeout \<and> snd (wait_for_create f val filter_name timeout w) = polled k w)"
    by (rule wait_for_create_polls)
  show "wait_for_delete f val filter_name timeout w = (True, polled (Suc k) w)"
    if "(\<forall>j<k. seen_at f val filter_name w j) \<and> \<not> seen_at f val filter_name w k \<and> k < nat timeout"
    using that by (intro wait_for_delete_first_gone) simp_all
  show "wait_for_delete f val filter_name timeout w = (False, polled (nat timeout) w)"
    if "\<forall>j<nat timeout. seen_at f val filter_name w j"
    using that by (rule wait_for_delete_never_gone)
  show "wait_for_create f val filter_name timeout w =
              (if iface_has_refresh f then
                 (case iface_refresh f (polled (Suc k) w) obj of
                    ClientError \<Rightarrow> (Inl EC2ResponseError, did_read (polled (Suc k) w))
                  | Ok _ \<Rightarrow> (Inr (Some True), did_read (polled (Suc k) w)))
               else (Inr None, polled (Suc k) w))"
    if "(\<forall>j<k. \<not> seen_at f val filter_name w j)
        \<and> fst (get f val filter_name True (sleep 2 (polled k w))) = Some obj \<and> k < nat timeout"
    using that by (intro wait_for_create_first_seen) simp_all
  show "wait_for_create f val filter_name timeout w = (Inr (Some False), polled (nat timeout) w)"
    if "\<forall>j<nat timeout. \<not> seen_at f val filter_name w j"
    using that by (rule wait_for_create_never_seen)
qed (simp_all add: polled_def)

theorem wait_sleep_bound_witness:
  "seen_at (example_filter_until 2) ''vol-1'' ''volume-id'' world0 0
   \<and> seen_at (example_filter_until 2) ''vol-1'' ''volume-id'' world0 1
   \<and> \<not> seen_at (example_filter_until 2) ''vol-1'' ''volume-id'' world0 2
   \<and> 2 < nat default_timeout
   \<and> wait_for_delete (example_filter_until 2) ''vol-1'' ''volume-id'' default_timeout world0
       = (True, polled 3 world0)
   \<and> (\<forall>j. seen_at (example_filter 0 True True) ''vol-1'' ''volume-id'' world0 j)
   \<and> wait_for_delete (example_filter 0 True True) ''vol-1'' ''volume-id'' default_timeout world0
       = (False, polled (nat default_timeout) world0)
   \<and> \<not> seen_at (example_filter 3 False True) ''vol-1'' ''volume-id'' world0 0
   \<and> \<not> seen_at (example_filter 3 False True) ''vol-1'' ''volume-id'' world0 1
   \<and> \<not> seen_at (example_filter 3 False True) ''vol-1'' ''volume-id'' world0 2
   \<and> fst (get (example_filter 3 False True) ''vol-1'' ''volume-id'' True (sleep 2 (polled 3 world0)))
       = Some \<lparr>res_id = ''vol-1'', res_description = None\<rparr>
   \<and> 3 < nat default_timeout
   \<and> wait_for_create (example_filter 3 False True) ''vol-1'' ''volume-id'' default_timeout world0
       = (Inr None, polled 4 world0)
   \<and> (\<forall>j. \<not> seen_at (example_filter_until 0) ''vol-1'' ''volume-id'' world0 j)
   \<and> wait_for_create (example_filter_until 0) ''vol-1'' ''volume-id'' default_timeout world0
       = (Inr (Some False), polled (nat default_timeout) world0)
   \<and> slept (polled (nat default_timeout) world0) = slept world0 + 2 * nat default_timeout"
proof -
  let ?u = "example_filter_until 2" and ?a = "example_filter 0 True True"
    and ?c = "example_filter 3 False True" and ?n = "example_filter_until 0"
  have u: "seen_at ?u ''vol-1'' ''volume-id'' world0 0" "seen_at ?u ''vol-1'' ''volume-id'' world0 1"
    "\<not> seen_at ?u ''vol-1'' ''volume-id'' world0 2"
    by (simp_all add: seen_at_def example_filter_until_def get_def sleep_def polled_def world0_def)
  have u': "\<forall>j<2. seen_at ?u ''vol-1'' ''volume-id'' world0 j"
    by (simp add: seen_at_def example_filter_until_def get_def sleep_def polled_def world0_def)
  have t: "2 < nat default_timeout" "3 < nat default_timeout"
    by (simp_all add: default_timeout_def)
  have a: "\<forall>j. seen_at ?a ''vol-1'' ''volume-id'' world0 j"
    by (simp add: seen_at_def example_filter_def get_def)
  have c: "\<not> seen_at ?c ''vol-1'' ''volume-id'' world0 0" "\<not> seen_at ?c ''vol-1'' ''volume-id'' world0 1"
    "\<not> seen_at ?c ''vol-1'' ''volume-id'' world0 2"
    "fst (get ?c ''vol-1'' ''volume-id'' True (sleep 2 (polled 3 world0)))
       = Some \<lparr>res_id = ''vol-1'', res_description = None\<rparr>"
    "\<not> iface_has_refresh ?c"
    by (simp_all add: seen_at_def example_filter_def get_def sleep_def polled_def world0_def)
  have c': "\<forall>j<3. \<not> seen_at ?c ''vol-1'' ''volume-id'' world0 j"
    by (simp add: seen_at_def example_filter_def get_def sleep_def polled_def world0_def)
  have n: "\<forall>j. \<not> seen_at ?n ''vol-1'' ''volume-id'' world0 j"
    by (simp add: seen_at_def example_filter_until_def get_def)
  have 1: "wait_for_delete ?u ''vol-1'' ''volume-id'' default_timeout world0 = (True, polled 3 world0)"
    using wait_sleep_bound [where f = ?u and val = "''vol-1''" and filter_name = "''volume-id''"
        and timeout = default_timeout and w = world0 and k = 2] u' u(3) t(1)
    by simp
  have 2: "wait_for_delete ?a ''vol-1'' ''volume-id'' default_timeout world0
             = (False, polled (nat default_timeout) world0)"
    using wait_sleep_bound [where f = ?a and val = "''vol-1''" and filter_name = "''volume-id''"
        and timeout = default_timeout and w = world0] a
    by simp
  have 3: "wait_for_create ?c ''vol-1'' ''volume-id'' default_timeout world0
             = (Inr None, polled 4 world0)"
    using wait_sleep_bound [where f = ?c and val = "''vol-1''" and filter_name = "''volume-id''"
        and timeout = default_timeout and w = world0 and k = 3
        and obj = "\<lparr>res_id = ''vol-1'', res_description = None\<rparr>"] c' c(4,5) t(2)
    by simp
  have 4: "wait_for_create ?n ''vol-1'' ''volume-id'' default_timeout world0
             = (Inr (Some False), polled (nat default_timeout) world0)"
    using wait_sleep_bound [where f = ?n and val = "''vol-1''" and filter_name = "''volume-id''"
        and timeout = default_timeout and w = world0] n
    by simp
  have 5: "slept (polled (nat default_timeout) world0) = slept world0 + 2 * nat default_timeout"
    using wait_sleep_bound [where k = "nat default_timeout" and w = world0] by simp
  show ?thesis
    using u t a c(1-4) n 1 2 3 4 5 by simp
qed

text \<open>
  The claim as stated fails: with the default \<^verbatim>\<open>timeout\<close> of 15, a resource that never
  shows up keeps \<^verbatim>\<open>wait_for_create\<close> asleep for 30 seconds before it reports the
  timeout, and one that never goes away does the same to \<^verbatim>\<open>wait_for_delete\<close>.
\<close>

theorem wait_sleep_bound_counterexample:
  "fst (wait_for_create (example_filter 100 True True) ''vol-1'' ''volume-id'' default_timeout world0)
     = Inr (Some False)
   \<and> slept (snd (wait_for_create (example_filter 100 True True) ''vol-1'' ''volume-id''
        default_timeout world0)) = 30
   \<and> fst (wait_for_delete (example_filter 0 True True) ''vol-1'' ''volume-id'' default_timeout world0)
     = False
   \<and> slept (snd (wait_for_delete (example_filter 0 True True) ''vol-1'' ''volume-id''
        default_timeout world0)) = 30
   \<and> slept world0 = 0 \<and> default_timeout = 15 \<and> (15::nat) < 30"
  by (simp add: wait_for_create_timed_out wait_for_delete_timed_out slept_world0)
    (simp add: default_timeout_def)

lemma wait_for_create_without_refresh:
  assumes "\<not> iface_has_refresh f"
  shows "fst (wait_for_create f val filter_name timeout w) = Inr None
       \<or> fst (wait_for_create f val filter_name timeout w) = Inr (Some False)"
proof (cases rule: first_poll_cases [of "nat timeout" "\<lambda>j. seen_at f val filter_name w j"])
  case never
  then have "wait_for_create f val filter_name timeout w = (Inr (Some False), polled (nat timeout) w)"
    by (intro wait_for_create_never_seen) simp
  then show ?thesis by simp
next
  case (first k)
  from first(3) obtain obj where
    "fst (get f val filter_name True (sleep 2 (polled k w))) = Some obj"
    by (auto simp: seen_at_def)
  from wait_for_create_first_seen [OF first(2) this first(1)]
  show ?thesis using assms by simp
qed

lemma falsy_without_refresh:
  assumes "\<not> iface_has_refresh f"
    and "wait_for_create f val filter_name timeout w = (Inr r, w2)"
  shows "\<not> truthy_outcome r"
  using wait_for_create_without_refresh [OF assms(1), of val filter_name timeout w] assms(2)
  by auto

text \<open>
  Without a \<^verbatim>\<open>refresh\<close> on the wrapping class, no \<^verbatim>\<open>create\<close> method built on
  \<^verbatim>\<open>wait_for_create\<close> ever returns the resource it has created.
\<close>

lemma security_group_create_without_refresh:
  assumes "\<not> iface_has_refresh f"
  shows "fst (AWSSecurityGroupService_create f name description w) \<noteq> Inr (Some res)"
  using falsy_without_refresh [OF assms]
  by (auto simp: AWSSecurityGroupService_create_def split: prod.splits sum.splits option.splits)

lemma volume_create_without_refresh:
  assumes "\<not> iface_has_refresh f"
  shows "fst (AWSVolumeService_create f name vsize zone_id snapshot_id iops description w)
           \<noteq> Inr (Some res)"
  using falsy_without_refresh [OF assms]
  by (auto simp: AWSVolumeService_create_def split: prod.splits sum.splits option.splits)

lemma snapshot_create_without_refresh:
  assumes "\<not> iface_has_refresh f"
  shows "fst (AWSSnapshotService_create f name volume_id description w) \<noteq> Inr (Some res)"
  using falsy_without_refresh [OF assms]
  by (auto simp: AWSSnapshotService_create_def split: prod.splits sum.splits option.splits)

text \<open>
  C7 fails on the code. With a wrapping class that has no \<^verbatim>\<open>refresh\<close>,
  \<^verbatim>\<open>AWSSecurityGroupService.create\<close> issues \<^verbatim>\<open>create_security_group\<close>, the group
  is visible at the first poll, \<^verbatim>\<open>wait_for_create\<close> returns \<^verbatim>\<open>None\<close> at once
  (one poll, two seconds), and the caller's \<^verbatim>\<open>if not ...: return None\<close> turns that
  into \<^verbatim>\<open>None\<close> instead of the group it has created.
\<close>

theorem security_group_create_returns_none:
  "wait_for_create (example_filter 0 False True) ''r-1'' ''group-id'' default_timeout
      \<lparr>issued = [CreateCall ''create_security_group''
                   [(''GroupName'', PStr ''web''), (''Description'', PStr ''web servers'')]],
       reads = 0, slept = 0\<rparr>
     = (Inr None,
        \<lparr>issued = [CreateCall ''create_security_group''
                   [(''GroupName'', PStr ''web''), (''Description'', PStr ''web servers'')]],
         reads = 1, slept = 2\<rparr>)
   \<and> AWSSecurityGroupService_create (example_filter 0 False True) ''web'' ''web servers'' world0
     = (Inr None,
        \<lparr>issued = [CreateCall ''create_security_group''
                   [(''GroupName'', PStr ''web''), (''Description'', PStr ''web servers'')]],
         reads = 1, slept = 2\<rparr>)"
  by (simp add: AWSSecurityGroupService_create_def create_def issue_def wait_for_create.simps
      default_timeout_def example_filter_def world0_def get_def sleep_def did_read_def)

section \<open>Properties of the launch options\<close>

lemma subnet_in_zone_last:
  "subnet_in_zone sns zone_id acc =
     (case filter (\<lambda>sn. sn_availability_zone sn = zone_id) sns of
        [] \<Rightarrow> acc
      | m # ms \<Rightarrow> Some (sn_id (last (m # ms))))"
  by (induction sns arbitrary: acc) (auto split: list.splits)

lemma subnet_in_zone_none:
  "\<forall>sn \<in> set sns. sn_availability_zone sn \<noteq> zone_id \<Longrightarrow> subnet_in_zone sns zone_id acc = acc"
  by (induction sns arbitrary: acc) auto

lemma deduce_unbound:
  "truthy zone_id \<Longrightarrow> \<forall>sn \<in> set (subnets vpc). sn_availability_zone sn \<noteq> the zone_id \<Longrightarrow>
   deduce_subnet_and_zone vpc zone_id = Inl UnboundLocalError"
  by (simp add: deduce_subnet_and_zone_def subnet_in_zone_none)

lemma default_vpc_loop_skip:
  "\<forall>v \<in> set others. \<not> is_default v \<Longrightarrow>
   default_vpc_loop (others @ vpcs) (vpc_id, subnet_id, zone_id) =
     default_vpc_loop vpcs (vpc_id, subnet_id, zone_id)"
  by (induction others) auto

text \<open>
  C2, as the code has it. When a subnet that the provider knows is supplied and no zone
  is, the resolver succeeds and returns the subnet and the zone as they were supplied:
  the zone stays unset. The subnet's own zone is read only to check a supplied zone
  against it. The security groups are those given, looked up in the subnet's network.
\<close>

theorem resolve_subnet_without_zone:
  "truthy subnet_id \<Longrightarrow> \<not> truthy zone_id \<Longrightarrow>
   get_all_subnets env (the subnet_id) = subnet # others \<Longrightarrow>
   resolve_launch_options env subnet_id zone_id security_groups =
     Inr (subnet_id, zone_id,
          if truthy_sgs security_groups
          then process_security_groups env (the security_groups) (Some (bs_vpc_id subnet))
          else [])"
  by (simp add: resolve_launch_options_def supplied_subnet_def supplied_groups_def)

theorem resolve_subnet_without_zone_witness:
  "truthy (Some ''subnet-1'') \<and> \<not> truthy None
   \<and> get_all_subnets example_topology ''subnet-1''
        = [\<lparr>bs_vpc_id = ''vpc-1'', bs_availability_zone = ''us-east-1a''\<rparr>]
   \<and> resolve_launch_options example_topology (Some ''subnet-1'') None (Some (SGNames [''web'']))
        = Inr (Some ''subnet-1'', None, [''sg-1''])"
  using resolve_subnet_without_zone [of "Some ''subnet-1''" None example_topology
      "\<lparr>bs_vpc_id = ''vpc-1'', bs_availability_zone = ''us-east-1a''\<rparr>" "[]"
      "Some (SGNames [''web''])"]
  by (simp add: example_topology_def process_security_groups_def example_sg_def)

text \<open>
  The claim as stated fails: for the subnet \<^verbatim>\<open>subnet-1\<close>, which lives in
  \<^verbatim>\<open>us-east-1a\<close>, and no zone, the resolved zone is \<^verbatim>\<open>None\<close>.
\<close>

theorem resolve_subnet_without_zone_counterexample:
  "get_all_subnets example_topology ''subnet-1''
     = [\<lparr>bs_vpc_id = ''vpc-1'', bs_availability_zone = ''us-east-1a''\<rparr>]
   \<and> resolve_launch_options example_topology (Some ''subnet-1'') None None
     = Inr (Some ''subnet-1'', None, [])
   \<and> fst (snd (projr (resolve_launch_options example_topology (Some ''subnet-1'') None None)))
     \<noteq> Some ''us-east-1a''"
  by (simp add: resolve_launch_options_def supplied_subnet_def supplied_groups_def
      example_topology_def)

text \<open>
  What one call of \<^verbatim>\<open>_deduce_subnet_and_zone\<close> picks: with a zone, the network's last
  subnet of that zone (when there is one), keeping the zone; without a zone, the network's
  first subnet (when there is one), adopting that subnet's zone.
\<close>

lemma deduce_subnet_and_zone_choice:
  "(truthy zone_id
      \<and> filter (\<lambda>sn. sn_availability_zone sn = the zone_id) (subnets vpc) \<noteq> []
    \<longrightarrow> deduce_subnet_and_zone vpc zone_id =
          Inr (Some (sn_id (last (filter (\<lambda>sn. sn_availability_zone sn = the zone_id) (subnets vpc)))),
               zone_id)
        \<and> sn_availability_zone
            (last (filter (\<lambda>sn. sn_availability_zone sn = the zone_id) (subnets vpc))) = the zone_id)
   \<and> (\<not> truthy zone_id \<and> subnets vpc \<noteq> []
    \<longrightarrow> deduce_subnet_and_zone vpc zone_id =
          Inr (Some (sn_id (hd (subnets vpc))), Some (sn_availability_zone (hd (subnets vpc)))))"
proof (intro conjI impI)
  let ?ms = "filter (\<lambda>sn. sn_availability_zone sn = the zone_id) (subnets vpc)"
  assume a: "truthy zone_id \<and> ?ms \<noteq> []"
  then obtain m ms where ms: "?ms = m # ms" by (cases ?ms) auto
  show "deduce_subnet_and_zone vpc zone_id = Inr (Some (sn_id (last ?ms)), zone_id)"
    using a by (simp add: deduce_subnet_and_zone_def subnet_in_zone_last ms)
  have "last ?ms \<in> set ?ms" using a by (intro last_in_set) simp
  then show "sn_availability_zone (last ?ms) = the zone_id" by simp
next
  assume "\<not> truthy zone_id \<and> subnets vpc \<noteq> []"
  then show "deduce_subnet_and_zone vpc zone_id =
      Inr (Some (sn_id (hd (subnets vpc))), Some (sn_availability_zone (hd (subnets vpc))))"
    by (cases "subnets vpc") (simp_all add: deduce_subnet_and_zone_def)
qed

lemma default_vpc_loop_none:
  "\<forall>v \<in> set vpcs. \<not> is_default v \<Longrightarrow>
   default_vpc_loop vpcs (vpc_id, subnet_id, zone_id) = Inr (vpc_id, subnet_id, zone_id)"
  by (induction vpcs) auto

text \<open>
  The resolver with no subnet and no security groups, when the account has exactly one
  default network: one call of the helper on that network.
\<close>

lemma resolve_single_default:
  assumes "\<not> truthy subnet_id" and "\<not> truthy_sgs security_groups"
    and "network_list env = others @ vpc # rest"
    and "\<forall>v \<in> set (others @ rest). \<not> is_default v" and "is_default vpc" and "net_id vpc \<noteq> []"
  shows "resolve_launch_options env subnet_id zone_id security_groups =
     (case deduce_subnet_and_zone vpc zone_id of
        Inl e \<Rightarrow> Inl e
      | Inr (subnet_id', zone_id') \<Rightarrow> Inr (subnet_id', zone_id', []))"
proof -
  have o: "\<forall>v \<in> set others. \<not> is_default v" and r: "\<forall>v \<in> set rest. \<not> is_default v"
    using assms(4) by auto
  have "default_vpc_loop (network_list env) (None, subnet_id, zone_id) =
     (case deduce_subnet_and_zone vpc zone_id of
        Inl e \<Rightarrow> Inl e
      | Inr (subnet_id', zone_id') \<Rightarrow> Inr (Some (net_id vpc), subnet_id', zone_id'))"
    using assms(5)
    by (simp add: assms(3) default_vpc_loop_skip [OF o] default_vpc_loop_none [OF r]
        split: sum.splits prod.splits)
  then show ?thesis
    using assms(1,2,6)
    by (simp add: resolve_launch_options_def supplied_subnet_def supplied_groups_def
        split: sum.splits prod.splits)
qed

text \<open>
  The resolver with no subnet and security groups that come to a single id, of a group in
  a network: one call of the helper on that network.
\<close>

lemma resolve_single_group:
  assumes "\<not> truthy subnet_id" and "truthy_sgs security_groups"
    and "process_security_groups env (the security_groups) None = [sgid]"
    and "security_groups_get env sgid = Some sg" and "truthy (sg_vpc_id sg)"
    and "network_get env (the (sg_vpc_id sg)) = Some vpc"
  shows "resolve_launch_options env subnet_id zone_id security_groups =
     (case deduce_subnet_and_zone vpc zone_id of
        Inl e \<Rightarrow> Inl e
      | Inr (subnet_id', zone_id') \<Rightarrow>
          (if truthy subnet_id' then Inr (subnet_id', zone_id', [sgid])
           else Inl AttributeError_groups_without_vpc))"
  using assms
  by (simp add: resolve_launch_options_def supplied_subnet_def supplied_groups_def
      split: sum.splits prod.splits)

text \<open>
  C4, as the code has it. Let no subnet be supplied and let resolution discover exactly one
  network: the only default network of the account when no security groups are given, or
  the network of the security group when the groups given come to a single id. With a
  supplied zone the resolver picks that network's last subnet of the zone (when there is
  one) and keeps the zone; with no zone it picks the network's first subnet (when there is
  one) and adopts that subnet's zone. The chosen subnet lives in the effective zone, and
  has a non-empty id.
\<close>

theorem resolve_subnet_choice:
  assumes "\<not> truthy subnet_id"
    and "(\<not> truthy_sgs security_groups \<and> network_list env = others @ vpc # rest
            \<and> (\<forall>v \<in> set (others @ rest). \<not> is_default v) \<and> is_default vpc
            \<and> net_id vpc \<noteq> [] \<and> sg_ids = [])
         \<or> (truthy_sgs security_groups
            \<and> process_security_groups env (the security_groups) None = [sgid]
            \<and> security_groups_get env sgid = Some sg \<and> truthy (sg_vpc_id sg)
            \<and> network_get env (the (sg_vpc_id sg)) = Some vpc \<and> sg_ids = [sgid])"
  shows "(truthy zone_id
            \<and> filter (\<lambda>sn. sn_availability_zone sn = the zone_id) (subnets vpc) \<noteq> []
            \<and> sn_id (last (filter (\<lambda>sn. sn_availability_zone sn = the zone_id) (subnets vpc))) \<noteq> []
          \<longrightarrow> resolve_launch_options env subnet_id zone_id security_groups =
                Inr (Some (sn_id (last (filter (\<lambda>sn. sn_availability_zone sn = the zone_id)
                                     (subnets vpc)))),
                     zone_id, sg_ids)
              \<and> sn_availability_zone
                  (last (filter (\<lambda>sn. sn_availability_zone sn = the zone_id) (subnets vpc)))
                  = the zone_id)
       \<and> (\<not> truthy zone_id \<and> subnets vpc \<noteq> [] \<and> sn_id (hd (subnets vpc)) \<noteq> []
          \<longrightarrow> resolve_launch_options env subnet_id zone_id security_groups =
                Inr (Some (sn_id (hd (subnets vpc))),
                     Some (sn_availability_zone (hd (subnets vpc))), sg_ids))"
proof -
  note d = deduce_subnet_and_zone_choice [of zone_id vpc]
  from assms(2) show ?thesis
  proof (elim disjE conjE)
    assume a: "\<not> truthy_sgs security_groups" "network_list env = others @ vpc # rest"
      "\<forall>v \<in> set (others @ rest). \<not> is_default v" "is_default vpc" "net_id vpc \<noteq> []"
      "sg_ids = []"
    show ?thesis
      using d unfolding resolve_single_default [OF assms(1) a(1-5)] a(6)
      by auto
  next
    assume a: "truthy_sgs security_groups"
      "process_security_groups env (the security_groups) None = [sgid]"
      "security_groups_get env sgid = Some sg" "truthy (sg_vpc_id sg)"
      "network_get env (the (sg_vpc_id sg)) = Some vpc" "sg_ids = [sgid]"
    show ?thesis
      using d unfolding resolve_single_group [OF assms(1) a(1-5)] a(6)
      by auto
  qed
qed

theorem resolve_subnet_choice_witness:
  "\<not> truthy None \<and> \<not> truthy_sgs None
   \<and> network_list example_topology = [] @ example_vpc # []
   \<and> is_default example_vpc \<and> net_id example_vpc \<noteq> []
   \<and> truthy (Some ''us-east-1a'')
   \<and> filter (\<lambda>sn. sn_availability_zone sn = ''us-east-1a'') (subnets example_vpc) \<noteq> []
   \<and> resolve_launch_options example_topology None (Some ''us-east-1a'') None
        = Inr (Some ''subnet-2'', Some ''us-east-1a'', [])
   \<and> truthy_sgs (Some (SGObjects [example_sg]))
   \<and> process_security_groups example_topology (SGObjects [example_sg]) None = [''sg-1'']
   \<and> security_groups_get example_topology ''sg-1'' = Some example_sg
   \<and> truthy (sg_vpc_id example_sg)
   \<and> network_get example_topology (the (sg_vpc_id example_sg)) = Some example_vpc
   \<and> subnets example_vpc \<noteq> []
   \<and> resolve_launch_options example_topology None None (Some (SGObjects [example_sg]))
        = Inr (Some ''subnet-1'', Some ''us-east-1a'', [''sg-1''])"
proof -
  have n: "\<not> truthy None" by simp
  have v: "is_default example_vpc" "net_id example_vpc \<noteq> []" "subnets example_vpc \<noteq> []"
    "filter (\<lambda>sn. sn_availability_zone sn = ''us-east-1a'') (subnets example_vpc) \<noteq> []"
    "sn_id (last (filter (\<lambda>sn. sn_availability_zone sn = ''us-east-1a'') (subnets example_vpc)))
       = ''subnet-2''"
    "sn_id (hd (subnets example_vpc)) = ''subnet-1''"
    "sn_availability_zone (hd (subnets example_vpc)) = ''us-east-1a''"
    by (simp_all add: example_vpc_def)
  have d: "\<not> truthy_sgs None \<and> network_list example_topology = [] @ example_vpc # []
            \<and> (\<forall>v \<in> set ([] @ []). \<not> is_default v) \<and> is_default example_vpc
            \<and> net_id example_vpc \<noteq> [] \<and> ([]::string list) = []"
    using v(1,2) by (simp add: example_topology_def)
  have g: "truthy_sgs (Some (SGObjects [example_sg]))
            \<and> process_security_groups example_topology (the (Some (SGObjects [example_sg]))) None
                = [''sg-1'']
            \<and> security_groups_get example_topology ''sg-1'' = Some example_sg
            \<and> truthy (sg_vpc_id example_sg)
            \<and> network_get example_topology (the (sg_vpc_id example_sg)) = Some example_vpc
            \<and> [''sg-1''] = [''sg-1'']"
    by (simp add: example_topology_def process_security_groups_def example_sg_def)
  have 1: "resolve_launch_options example_topology None (Some ''us-east-1a'') None
        = Inr (Some ''subnet-2'', Some ''us-east-1a'', [])"
    using resolve_subnet_choice [OF n disjI1 [OF d], of "Some ''us-east-1a''"] v(4,5)
    by simp
  have 2: "resolve_launch_options example_topology None None (Some (SGObjects [example_sg]))
        = Inr (Some ''subnet-1'', Some ''us-east-1a'', [''sg-1''])"
    using resolve_subnet_choice [OF n disjI2 [OF g], of None] v(3,6,7)
    by simp
  show ?thesis using d g v 1 2 by simp
qed

text \<open>
  The claim as stated fails: in the example network the first subnet of
  \<^verbatim>\<open>us-east-1a\<close> is \<^verbatim>\<open>subnet-1\<close>, and the resolver, given that zone and nothing
  else, places the instance in \<^verbatim>\<open>subnet-2\<close>, the last one of the zone. It does the
  same with no zone when the one security group is listed twice: the second round of the
  loop over the groups calls the helper with the zone that the first round adopted.
\<close>

theorem resolve_subnet_choice_counterexample:
  "sn_id (hd (filter (\<lambda>sn. sn_availability_zone sn = ''us-east-1a'') (subnets example_vpc)))
     = ''subnet-1''
   \<and> deduce_subnet_and_zone example_vpc (Some ''us-east-1a'')
     = Inr (Some ''subnet-2'', Some ''us-east-1a'')
   \<and> resolve_launch_options example_topology None (Some ''us-east-1a'') None
     = Inr (Some ''subnet-2'', Some ''us-east-1a'', [])
   \<and> sn_id (hd (subnets example_vpc)) = ''subnet-1''
   \<and> resolve_launch_options example_topology None None (Some (SGObjects [example_sg, example_sg]))
     = Inr (Some ''subnet-2'', Some ''us-east-1a'', [''sg-1'', ''sg-1''])"
  by (simp add: resolve_launch_options_def supplied_subnet_def supplied_groups_def
      example_topology_def example_vpc_def deduce_subnet_and_zone_def example_sg_def
      process_security_groups_def)

text \<open>
  C10. With a zone and no subnet, when the network that the resolver finds (the first
  default network of the account when no security groups are given, the network of the
  first security group otherwise) has no subnet in that zone, the resolver raises
  UnboundLocalError: \<^verbatim>\<open>_deduce_subnet_and_zone\<close> returns its local \<^verbatim>\<open>subnet_id\<close>,
  which no round of its loop has assigned. It neither returns a result nor raises one of
  its own ValueError or AttributeError.
\<close>

theorem resolve_unbound_local:
  assumes "truthy zone_id" and "\<not> truthy subnet_id"
    and "\<forall>sn \<in> set (subnets vpc). sn_availability_zone sn \<noteq> the zone_id"
  shows "(\<not> truthy_sgs security_groups \<and> network_list env = others @ vpc # rest
            \<and> (\<forall>v \<in> set others. \<not> is_default v) \<and> is_default vpc
          \<longrightarrow> resolve_launch_options env subnet_id zone_id security_groups = Inl UnboundLocalError)
       \<and> (truthy_sgs security_groups
            \<and> process_security_groups env (the security_groups) None = sgid # sgids
            \<and> security_groups_get env sgid = Some sg \<and> truthy (sg_vpc_id sg)
            \<and> network_get env (the (sg_vpc_id sg)) = Some vpc
          \<longrightarrow> resolve_launch_options env subnet_id zone_id security_groups = Inl UnboundLocalError)"
proof (intro conjI impI)
  note d = deduce_unbound [OF assms(1) assms(3)]
  assume a: "\<not> truthy_sgs security_groups \<and> network_list env = others @ vpc # rest
            \<and> (\<forall>v \<in> set others. \<not> is_default v) \<and> is_default vpc"
  then have "default_vpc_loop (network_list env) (None, subnet_id, zone_id) = Inl UnboundLocalError"
    by (simp add: default_vpc_loop_skip d)
  then show "resolve_launch_options env subnet_id zone_id security_groups = Inl UnboundLocalError"
    using a assms(2)
    by (simp add: resolve_launch_options_def supplied_subnet_def supplied_groups_def)
next
  note d = deduce_unbound [OF assms(1) assms(3)]
  assume a: "truthy_sgs security_groups
            \<and> process_security_groups env (the security_groups) None = sgid # sgids
            \<and> security_groups_get env sgid = Some sg \<and> truthy (sg_vpc_id sg)
            \<and> network_get env (the (sg_vpc_id sg)) = Some vpc"
  then have "sg_loop env (process_security_groups env (the security_groups) None)
               ([], subnet_id, zone_id) = Inl UnboundLocalError"
    by (simp add: d)
  then show "resolve_launch_options env subnet_id zone_id security_groups = Inl UnboundLocalError"
    using a assms(2)
    by (simp add: resolve_launch_options_def supplied_subnet_def supplied_groups_def)
qed

theorem resolve_unbound_local_witness:
  "truthy (Some ''us-east-1c'') \<and> \<not> truthy None
   \<and> list_all (\<lambda>sn. sn_availability_zone sn \<noteq> ''us-east-1c'') (subnets example_vpc)
   \<and> network_list example_topology = [] @ example_vpc # [] \<and> is_default example_vpc
   \<and> resolve_launch_options example_topology None (Some ''us-east-1c'') None
       = Inl UnboundLocalError
   \<and> process_security_groups example_topology (SGNames [''web'']) None = [''sg-1'']
   \<and> security_groups_get example_topology ''sg-1'' = Some example_sg
   \<and> network_get example_topology (the (sg_vpc_id example_sg)) = Some example_vpc
   \<and> resolve_launch_options example_topology None (Some ''us-east-1c'') (Some (SGNames [''web'']))
       = Inl UnboundLocalError"
proof -
  have z: "truthy (Some ''us-east-1c'')" "\<not> truthy None"
    "\<forall>sn \<in> set (subnets example_vpc). sn_availability_zone sn \<noteq> the (Some ''us-east-1c'')"
    by (simp_all add: example_vpc_def)
  have env: "network_list example_topology = [] @ example_vpc # []" "is_default example_vpc"
    "process_security_groups example_topology (SGNames [''web'']) None = [''sg-1'']"
    "security_groups_get example_topology ''sg-1'' = Some example_sg"
    "truthy (sg_vpc_id example_sg)"
    "network_get example_topology (the (sg_vpc_id example_sg)) = Some example_vpc"
    by (simp_all add: example_topology_def example_vpc_def example_sg_def
        process_security_groups_def)
  have l: "list_all (\<lambda>sn. sn_availability_zone sn \<noteq> ''us-east-1c'') (subnets example_vpc)"
    by (simp add: example_vpc_def)
  show ?thesis
    using z(1,2) l env
      resolve_unbound_local [OF z, of None example_topology "[]" "[]" "''sg-1''" "[]" example_sg]
      resolve_unbound_local [OF z, of "Some (SGNames [''web''])" example_topology "[]" "[]"
        "''sg-1''" "[]" example_sg]
    by simp
qed

section \<open>Properties of the block device mapping\<close>

lemma process_device_ephemeral:
  "\<not> dev_is_volume device \<Longrightarrow> process_device volumes zone device st w = (Inr st, w)"
  by (cases st) (simp add: process_device_def)

lemma process_devices_skip_ephemeral:
  "process_devices volumes zone devices st w =
   process_devices volumes zone (filter dev_is_volume devices) st w"
  by (induction devices arbitrary: st w)
    (auto simp: process_device_ephemeral split: prod.splits sum.splits)

lemma process_devices_Cons_Inr:
  "process_devices volumes zone (device # devices) st w = (Inr st', w') \<Longrightarrow>
   \<exists>st1 w1. process_device volumes zone device st w = (Inr st1, w1)
     \<and> process_devices volumes zone devices st1 w1 = (Inr st', w')"
  by (auto split: prod.splits sum.splits)

text \<open>The slot of a volume device, given the letters not yet given out.\<close>

lemma process_device_volume_Inr:
  assumes "process_device volumes zone device (bdm, next_letter, n) w = (Inr (bdm', next_letter', n'), w')"
    and "dev_is_volume device"
  shows "n' = n
     \<and> (\<not> dev_is_root device \<longrightarrow> next_letter \<noteq> [])
     \<and> next_letter' = (if dev_is_root device then next_letter else tl next_letter)
     \<and> (\<exists>bd. bdm' = dict_set (if dev_is_root device then ''/dev/sda1'' else ''sd'' @ [hd next_letter])
                       bd
                       (dict_set (if dev_is_root device then ''/dev/sda1'' else ''sd'' @ [hd next_letter])
                          BlockDeviceType bdm)
            \<and> bdt_delete_on_terminate bd = dev_delete_on_terminate device)"
proof (cases "dev_is_root device")
  case True
  then show ?thesis
    using assms
    by (simp add: process_device_def Let_def
        split: if_splits option.splits source.splits prod.splits sum.splits)
      (auto split: if_splits prod.splits sum.splits option.splits)
next
  case False
  then show ?thesis
    using assms
    by (cases next_letter)
      (auto simp add: process_device_def Let_def
        split: if_splits option.splits source.splits prod.splits sum.splits)
qed

lemma process_device_sourced:
  assumes "dev_is_volume device" and "dev_source device \<noteq> None"
    and "dev_is_root device \<or> next_letter \<noteq> []"
  shows "\<exists>bdm'. process_device volumes zone device (bdm, next_letter, n) w =
           (Inr (bdm', if dev_is_root device then next_letter else tl next_letter, n), w)"
  using assms
  by (cases next_letter)
    (auto simp add: process_device_def Let_def split: option.splits source.splits)

lemma letters_from_g: "drop 6 ascii_lowercase = ''ghijklmnopqrstuvwxyz''"
  by (simp add: ascii_lowercase_def)

lemma three_volumes_slots:
  assumes "process_devices volumes zone [x, y, z] ([], ''ghijklmnopqrstuvwxyz'', 0) w
             = (Inr (bdm, rest, n), w')"
    and "dev_is_volume x" "dev_is_volume y" "dev_is_volume z"
    and "length (filter dev_is_root [x, y, z]) = 1"
  shows "map fst bdm =
          (if dev_is_root x then [''/dev/sda1'', ''sdg'', ''sdh'']
           else if dev_is_root y then [''sdg'', ''/dev/sda1'', ''sdh'']
           else [''sdg'', ''sdh'', ''/dev/sda1''])
       \<and> map (\<lambda>e. bdt_delete_on_terminate (snd e)) bdm = map dev_delete_on_terminate [x, y, z]"
proof -
  from process_devices_Cons_Inr [OF assms(1)] obtain b1 l1 n1 w1 where
    s1: "process_device volumes zone x ([], ''ghijklmnopqrstuvwxyz'', 0) w = (Inr (b1, l1, n1), w1)"
    and r1: "process_devices volumes zone [y, z] (b1, l1, n1) w1 = (Inr (bdm, rest, n), w')"
    by (metis prod_cases3)
  from process_devices_Cons_Inr [OF r1] obtain b2 l2 n2 w2 where
    s2: "process_device volumes zone y (b1, l1, n1) w1 = (Inr (b2, l2, n2), w2)"
    and r2: "process_devices volumes zone [z] (b2, l2, n2) w2 = (Inr (bdm, rest, n), w')"
    by (metis prod_cases3)
  from process_devices_Cons_Inr [OF r2] obtain b3 l3 n3 w3 where
    s3: "process_device volumes zone z (b2, l2, n2) w2 = (Inr (b3, l3, n3), w3)"
    and r3: "process_devices volumes zone [] (b3, l3, n3) w3 = (Inr (bdm, rest, n), w')"
    by (metis prod_cases3)
  have e: "b3 = bdm" using r3 by simp
  note k1 = process_device_volume_Inr [OF s1 assms(2)]
  note k2 = process_device_volume_Inr [OF s2 assms(3)]
  note k3 = process_device_volume_Inr [OF s3 assms(4)]
  consider (rx) "dev_is_root x" "\<not> dev_is_root y" "\<not> dev_is_root z"
    | (ry) "\<not> dev_is_root x" "dev_is_root y" "\<not> dev_is_root z"
    | (rz) "\<not> dev_is_root x" "\<not> dev_is_root y" "dev_is_root z"
    using assms(5) by (auto split: if_splits)
  then show ?thesis
  proof cases
    case rx
    then show ?thesis using k1 k2 k3 e by auto
  next
    case ry
    then show ?thesis using k1 k2 k3 e by auto
  next
    case rz
    then show ?thesis using k1 k2 k3 e by auto
  qed
qed

lemma three_volumes_total:
  assumes "dev_is_volume x" "dev_is_volume y" "dev_is_volume z"
    and "dev_source x \<noteq> None" "dev_source y \<noteq> None" "dev_source z \<noteq> None"
  shows "\<exists>st. process_devices volumes zone [x, y, z] (bdm0, ''ghijklmnopqrstuvwxyz'', n) w = (Inr st, w)"
proof -
  let ?l0 = "''ghijklmnopqrstuvwxyz''"
  let ?l1 = "if dev_is_root x then ?l0 else tl ?l0"
  let ?l2 = "if dev_is_root y then ?l1 else tl ?l1"
  let ?l3 = "if dev_is_root z then ?l2 else tl ?l2"
  have "\<exists>b1. process_device volumes zone x (bdm0, ?l0, n) w = (Inr (b1, ?l1, n), w)"
    by (rule process_device_sourced [OF assms(1) assms(4)]) simp
  then obtain b1 where s1: "process_device volumes zone x (bdm0, ?l0, n) w = (Inr (b1, ?l1, n), w)" ..
  have "\<exists>b2. process_device volumes zone y (b1, ?l1, n) w = (Inr (b2, ?l2, n), w)"
    by (rule process_device_sourced [OF assms(2) assms(5)]) simp
  then obtain b2 where s2: "process_device volumes zone y (b1, ?l1, n) w = (Inr (b2, ?l2, n), w)" ..
  have "\<exists>b3. process_device volumes zone z (b2, ?l2, n) w = (Inr (b3, ?l3, n), w)"
    by (rule process_device_sourced [OF assms(3) assms(6)]) simp
  then obtain b3 where s3: "process_device volumes zone z (b2, ?l2, n) w = (Inr (b3, ?l3, n), w)" ..
  show ?thesis
    by (simp only: process_devices.simps s1 s2 s3 prod.case sum.case) (rule exI, rule refl)
qed

text \<open>
  C9. When the volume devices of a launch configuration are one root device and two
  others, in any order and with any ephemeral devices among them, a mapping that
  \<^verbatim>\<open>_process_block_device_mappings\<close> returns has exactly the three slots
  \<^verbatim>\<open>/dev/sda1\<close> (the root device), \<^verbatim>\<open>sdg\<close> and \<^verbatim>\<open>sdh\<close> (the other two, in their
  order), each carrying the \<^verbatim>\<open>delete_on_terminate\<close> of its device; the ephemeral
  devices take no letter. It does return one when the three devices have a source.
\<close>

theorem root_and_two_volumes:
  assumes "filter dev_is_volume (block_devices lc) = [x, y, z]"
    and "length (filter dev_is_root [x, y, z]) = 1"
  shows "(\<forall>bdm w'. process_block_device_mappings volumes lc zone w = (Inr bdm, w') \<longrightarrow>
            map fst bdm =
              (if dev_is_root x then [''/dev/sda1'', ''sdg'', ''sdh'']
               else if dev_is_root y then [''sdg'', ''/dev/sda1'', ''sdh'']
               else [''sdg'', ''sdh'', ''/dev/sda1''])
            \<and> map (\<lambda>e. bdt_delete_on_terminate (snd e)) bdm = map dev_delete_on_terminate [x, y, z])
       \<and> (dev_source x \<noteq> None \<and> dev_source y \<noteq> None \<and> dev_source z \<noteq> None \<longrightarrow>
            (\<exists>bdm. process_block_device_mappings volumes lc zone w = (Inr bdm, w)))"
proof -
  have "set [x, y, z] = set (filter dev_is_volume (block_devices lc))"
    using assms(1) by simp
  then have v: "dev_is_volume x" "dev_is_volume y" "dev_is_volume z"
    by auto
  have run: "process_devices volumes zone (block_devices lc) st w =
             process_devices volumes zone [x, y, z] st w" for st
    using process_devices_skip_ephemeral [of volumes zone "block_devices lc" st w] assms(1)
    by simp
  show ?thesis
  proof (intro conjI allI impI)
    fix bdm w'
    assume "process_block_device_mappings volumes lc zone w = (Inr bdm, w')"
    then obtain rest n where
      "process_devices volumes zone [x, y, z] ([], ''ghijklmnopqrstuvwxyz'', 0) w
         = (Inr (bdm, rest, n), w')"
      unfolding process_block_device_mappings_def run letters_from_g
      by (auto split: prod.splits sum.splits)
    from three_volumes_slots [OF this v assms(2)]
    show "map fst bdm =
              (if dev_is_root x then [''/dev/sda1'', ''sdg'', ''sdh'']
               else if dev_is_root y then [''sdg'', ''/dev/sda1'', ''sdh'']
               else [''sdg'', ''sdh'', ''/dev/sda1''])"
      and "map (\<lambda>e. bdt_delete_on_terminate (snd e)) bdm = map dev_delete_on_terminate [x, y, z]"
      by blast+
  next
    assume "dev_source x \<noteq> None \<and> dev_source y \<noteq> None \<and> dev_source z \<noteq> None"
    then obtain st where
      "process_devices volumes zone [x, y, z] ([], ''ghijklmnopqrstuvwxyz'', 0) w = (Inr st, w)"
      using three_volumes_total [OF v, of volumes zone "[]" 0 w] by blast
    then show "\<exists>bdm. process_block_device_mappings volumes lc zone w = (Inr bdm, w)"
      unfolding process_block_device_mappings_def run letters_from_g
      by (cases st) simp
  qed
qed

lemma example_three_volumes:
  "process_block_device_mappings (example_filter 0 True True)
      \<lparr>block_devices = [ephemeral_device, snapshot_device, ephemeral_device,
                         root_snapshot_device, volume_device],
       network_interfaces = []\<rparr> None world0
   = (Inr [(''sdg'', BlockDeviceType\<lparr>bdt_snapshot_id := Some ''snap-2'',
                       bdt_delete_on_terminate := Some True\<rparr>),
           (''/dev/sda1'', BlockDeviceType\<lparr>bdt_snapshot_id := Some ''snap-1'',
                       bdt_delete_on_terminate := Some True, bdt_size := Some 10\<rparr>),
           (''sdh'', BlockDeviceType\<lparr>bdt_volume_id := Some ''vol-7'',
                       bdt_delete_on_terminate := Some False\<rparr>)], world0)"
  by (simp add: process_block_device_mappings_def process_device_def ascii_lowercase_def
      ephemeral_device_def snapshot_device_def root_snapshot_device_def volume_device_def)

theorem root_and_two_volumes_witness:
  "filter dev_is_volume [ephemeral_device, snapshot_device, ephemeral_device,
                         root_snapshot_device, volume_device]
     = [snapshot_device, root_snapshot_device, volume_device]
   \<and> length (filter dev_is_root [snapshot_device, root_snapshot_device, volume_device]) = 1
   \<and> map fst (projr (fst (process_block_device_mappings (example_filter 0 True True)
        \<lparr>block_devices = [ephemeral_device, snapshot_device, ephemeral_device,
                           root_snapshot_device, volume_device],
         network_interfaces = []\<rparr> None world0)))
     = [''sdg'', ''/dev/sda1'', ''sdh'']"
proof -
  let ?lc = "\<lparr>block_devices = [ephemeral_device, snapshot_device, ephemeral_device,
                         root_snapshot_device, volume_device],
       network_interfaces = []\<rparr>"
  have a: "filter dev_is_volume (block_devices ?lc)
             = [snapshot_device, root_snapshot_device, volume_device]"
    by (simp add: ephemeral_device_def snapshot_device_def root_snapshot_device_def
        volume_device_def)
  have b: "length (filter dev_is_root [snapshot_device, root_snapshot_device, volume_device]) = 1"
    by (simp add: snapshot_device_def root_snapshot_device_def volume_device_def)
  have r: "\<not> dev_is_root snapshot_device" "dev_is_root root_snapshot_device"
    by (simp_all add: snapshot_device_def root_snapshot_device_def)
  show ?thesis
    using a b r root_and_two_volumes [OF a b, of "example_filter 0 True True" None world0]
    by (simp add: example_three_volumes)
qed

text \<open>
  C3 fails on the code. An ephemeral device gets its \<^verbatim>\<open>ephemeral_name\<close> on a
  \<^verbatim>\<open>bd_type\<close> that never enters the mapping, and \<^verbatim>\<open>ephemeral_counter\<close> stays 0: a
  launch configuration of two ephemeral devices gives the empty mapping.
\<close>

theorem ephemeral_devices_dropped:
  "process_block_device_mappings (example_filter 0 True True)
      \<lparr>block_devices = [ephemeral_device, ephemeral_device], network_interfaces = []\<rparr>
      (Some ''us-east-1a'') world0
   = (Inr [], world0)"
  by (simp add: process_block_device_mappings_def process_device_def ephemeral_device_def)

section \<open>Properties of the launch\<close>

lemma process_device_no_letter:
  "takes_letter device \<Longrightarrow>
   process_device volumes zone device (bdm, [], n) w = (Inl StopIteration, w)"
  by (simp add: process_device_def takes_letter_def)

lemma process_device_blank_without_zone:
  "\<not> truthy zone \<Longrightarrow> blank_volume device \<Longrightarrow> dev_is_root device \<or> next_letter \<noteq> [] \<Longrightarrow>
   process_device volumes zone device (bdm, next_letter, n) w =
     (Inl InvalidConfigurationException, w)"
  by (cases next_letter) (auto simp add: process_device_def blank_volume_def)

lemma process_devices_blank_without_zone:
  assumes "\<not> truthy zone" and "blank_volume device"
  shows "device \<in> set devices \<Longrightarrow>
     (process_devices volumes zone devices (bdm, next_letter, n) w
        = (Inl InvalidConfigurationException, w)
      \<or> process_devices volumes zone devices (bdm, next_letter, n) w = (Inl StopIteration, w))
     \<and> (length (filter takes_letter devices) \<le> length next_letter \<longrightarrow>
          process_devices volumes zone devices (bdm, next_letter, n) w
            = (Inl InvalidConfigurationException, w))"
proof (induction devices arbitrary: bdm next_letter)
  case Nil
  then show ?case by simp
next
  case (Cons a devices)
  consider (eph) "\<not> dev_is_volume a"
    | (stop) "takes_letter a" "next_letter = []"
    | (blank) "dev_is_volume a" "dev_source a = None" "dev_is_root a \<or> next_letter \<noteq> []"
    | (sourced) "dev_is_volume a" "dev_source a \<noteq> None" "dev_is_root a \<or> next_letter \<noteq> []"
    by (auto simp: takes_letter_def)
  then show ?case
  proof cases
    case eph
    then have "a \<noteq> device" using assms(2) by (auto simp: blank_volume_def)
    then have "device \<in> set devices" using Cons.prems by simp
    from Cons.IH [OF this, of bdm next_letter] eph show ?thesis
      by (simp add: process_device_ephemeral takes_letter_def)
  next
    case stop
    then show ?thesis by (simp add: process_device_no_letter)
  next
    case blank
    then have "blank_volume a" by (simp add: blank_volume_def)
    from process_device_blank_without_zone [OF assms(1) this blank(3)]
    show ?thesis by simp
  next
    case sourced
    then have "a \<noteq> device" using assms(2) by (auto simp: blank_volume_def)
    then have in_rest: "device \<in> set devices" using Cons.prems by simp
    have "\<exists>bdm'. process_device volumes zone a (bdm, next_letter, n) w =
            (Inr (bdm', if dev_is_root a then next_letter else tl next_letter, n), w)"
      by (rule process_device_sourced [OF sourced])
    then obtain bdm' where
      s: "process_device volumes zone a (bdm, next_letter, n) w =
            (Inr (bdm', if dev_is_root a then next_letter else tl next_letter, n), w)" ..
    show ?thesis
    proof (cases "dev_is_root a")
      case True
      with Cons.IH [OF in_rest, of bdm' next_letter] s show ?thesis
        by (simp add: takes_letter_def)
    next
      case False
      then have ne: "next_letter \<noteq> []" using sourced(3) by simp
      with False Cons.IH [OF in_rest, of bdm' "tl next_letter"] s sourced(1) show ?thesis
        by (cases next_letter) (simp_all add: takes_letter_def)
    qed
  qed
qed

lemma process_devices_letters_used_up:
  assumes "length pre = length next_letter" and "takes_letter device"
  shows "\<forall>x \<in> set pre. dev_is_volume x \<and> dev_source x \<noteq> None \<and> \<not> dev_is_root x \<Longrightarrow>
     process_devices volumes zone (pre @ device # post) (bdm, next_letter, n) w
       = (Inl StopIteration, w)"
  using assms(1)
proof (induction pre next_letter arbitrary: bdm rule: list_induct2)
  case Nil
  show ?case by (simp add: process_device_no_letter [OF assms(2)])
next
  case (Cons a pre c cs)
  have a: "dev_is_volume a" "dev_source a \<noteq> None" "\<not> dev_is_root a"
    using Cons.prems by simp_all
  have "\<exists>bdm'. process_device volumes zone a (bdm, c # cs, n) w =
          (Inr (bdm', if dev_is_root a then c # cs else tl (c # cs), n), w)"
    by (rule process_device_sourced [OF a(1,2)]) simp
  then obtain bdm' where
    "process_device volumes zone a (bdm, c # cs, n) w =
          (Inr (bdm', if dev_is_root a then c # cs else tl (c # cs), n), w)" ..
  then have s: "process_device volumes zone a (bdm, c # cs, n) w = (Inr (bdm', cs, n), w)"
    using a(3) by simp
  have r: "process_devices volumes zone (pre @ device # post) (bdm', cs, n) w
             = (Inl StopIteration, w)"
    by (rule Cons.IH) (use Cons.prems in simp)
  show ?case by (simp only: append_Cons process_devices.simps s r prod.case sum.case)
qed

lemma create_block_device_error:
  "process_devices (volumes_iface p) zone_id (block_devices lc) ([], drop 6 ascii_lowercase, 0) w
     = (Inl e, w1) \<Longrightarrow>
   AWSInstanceService_create p name image_id instance_size zone_id key_pair_name security_groups
     user_data (Some lc) w = (Inl e, w1)"
  by (simp add: AWSInstanceService_create_def process_block_device_mappings_def)

text \<open>
  C5, as the code has it. If a launch configuration contains a blank volume (a volume device
  without a source) and no zone is supplied, \<^verbatim>\<open>AWSInstanceService.create\<close> fails before
  any provider call: the world is as it was. The failure is
  \<^verbatim>\<open>InvalidConfigurationException\<close> whenever the configuration has at most twenty
  volume devices that take a letter (the letters \<^verbatim>\<open>g\<close> to \<^verbatim>\<open>z\<close>); with more of them the
  letter iterator can run out first, which raises \<^verbatim>\<open>StopIteration\<close>.
\<close>

theorem blank_volume_without_zone:
  assumes "\<not> truthy zone_id" and "blank_volume device" and "device \<in> set (block_devices lc)"
  shows "(AWSInstanceService_create p name image_id instance_size zone_id key_pair_name
            security_groups user_data (Some lc) w = (Inl InvalidConfigurationException, w)
          \<or> AWSInstanceService_create p name image_id instance_size zone_id key_pair_name
            security_groups user_data (Some lc) w = (Inl StopIteration, w))
       \<and> (length (filter takes_letter (block_devices lc)) \<le> 20 \<longrightarrow>
            AWSInstanceService_create p name image_id instance_size zone_id key_pair_name
              security_groups user_data (Some lc) w = (Inl InvalidConfigurationException, w))"
proof -
  have len: "length (drop 6 ascii_lowercase) = 20" by (simp add: ascii_lowercase_def)
  note d = process_devices_blank_without_zone [OF assms(1,2,3),
      of "volumes_iface p" "[]" "drop 6 ascii_lowercase" 0 w, unfolded len]
  from d have "process_devices (volumes_iface p) zone_id (block_devices lc)
                  ([], drop 6 ascii_lowercase, 0) w = (Inl InvalidConfigurationException, w)
             \<or> process_devices (volumes_iface p) zone_id (block_devices lc)
                  ([], drop 6 ascii_lowercase, 0) w = (Inl StopIteration, w)"
    by (rule conjunct1)
  then have 1: "AWSInstanceService_create p name image_id instance_size zone_id key_pair_name
            security_groups user_data (Some lc) w = (Inl InvalidConfigurationException, w)
          \<or> AWSInstanceService_create p name image_id instance_size zone_id key_pair_name
            security_groups user_data (Some lc) w = (Inl StopIteration, w)"
    by (elim disjE) (simp_all add: create_block_device_error)
  have 2: "AWSInstanceService_create p name image_id instance_size zone_id key_pair_name
              security_groups user_data (Some lc) w = (Inl InvalidConfigurationException, w)"
    if "length (filter takes_letter (block_devices lc)) \<le> 20"
    using d that by (intro create_block_device_error) (elim conjE impE, assumption+)
  show ?thesis using 1 2 by (intro conjI impI)
qed

theorem blank_volume_without_zone_witness:
  "\<not> truthy None \<and> blank_volume blank_device
   \<and> blank_device \<in> set [snapshot_device, blank_device]
   \<and> length (filter takes_letter [snapshot_device, blank_device]) = 2
   \<and> AWSInstanceService_create example_provider ''vm'' ''ami-1'' ''t2.micro'' None None None None
        (Some \<lparr>block_devices = [snapshot_device, blank_device], network_interfaces = []\<rparr>) world0
       = (Inl InvalidConfigurationException, world0)"
proof -
  let ?lc = "\<lparr>block_devices = [snapshot_device, blank_device], network_interfaces = []\<rparr>"
  have a: "\<not> truthy None" "blank_volume blank_device" "blank_device \<in> set (block_devices ?lc)"
    by (simp_all add: blank_volume_def blank_device_def)
  have b: "length (filter takes_letter (block_devices ?lc)) = 2"
    by (simp add: takes_letter_def blank_device_def snapshot_device_def)
  show ?thesis
    using a b blank_volume_without_zone [OF a, of example_provider "''vm''" "''ami-1''"
        "''t2.micro''" None None None world0]
    by simp
qed

text \<open>
  The claim as stated fails: after twenty volumes from snapshots the letters are used up,
  and a blank volume in twenty-first place makes \<^verbatim>\<open>next(next_letter)\<close> raise
  \<^verbatim>\<open>StopIteration\<close> before the zone is looked at. No provider call is issued here
  either.
\<close>

theorem blank_volume_without_zone_counterexample:
  "\<not> truthy None \<and> blank_volume blank_device
   \<and> AWSInstanceService_create example_provider ''vm'' ''ami-1'' ''t2.micro'' None None None None
        (Some \<lparr>block_devices = replicate 20 snapshot_device @ [blank_device],
               network_interfaces = []\<rparr>) world0
       = (Inl StopIteration, world0)"
proof -
  have p: "\<forall>x \<in> set (replicate 20 snapshot_device).
             dev_is_volume x \<and> dev_source x \<noteq> None \<and> \<not> dev_is_root x"
    by (simp add: snapshot_device_def)
  have l: "length (replicate 20 snapshot_device) = length (drop 6 ascii_lowercase)"
    by (simp add: ascii_lowercase_def)
  have t: "takes_letter blank_device" by (simp add: takes_letter_def blank_device_def)
  have "process_devices (volumes_iface example_provider) None
          (replicate 20 snapshot_device @ blank_device # []) ([], drop 6 ascii_lowercase, 0) world0
        = (Inl StopIteration, world0)"
    by (rule process_devices_letters_used_up [OF l t p])
  then have "AWSInstanceService_create example_provider ''vm'' ''ami-1'' ''t2.micro'' None None
        None None
        (Some \<lparr>block_devices = replicate 20 snapshot_device @ [blank_device],
               network_interfaces = []\<rparr>) world0
       = (Inl StopIteration, world0)"
    by (intro create_block_device_error) simp
  then show ?thesis by (simp add: blank_volume_def blank_device_def)
qed












end
